theory Spec2Isabelle
  imports Complex_Main "HOL-Library.AList" "HOL-Library.Multiset" "HOL-Library.Word" "HOL-Library.Product_Lexorder"
begin

section \<open>Python values, exceptions and string conversion\<close>

text \<open>
  Exceptions are values. The two Redis exception classes that \<open>cache.py\<close> catches by name
  are constructors of their own; every other exception class is \<open>Exception\<close> with its
  message, which is what \<open>except Exception\<close> catches and what
  \<open>except (ConnectionError, TimeoutError)\<close> lets through.
\<close>

datatype exn = ConnectionError | TimeoutError | Exception string

text \<open>
  The positional arguments the cache decorator formats into its key: an integer, a string,
  or an object without \<open>__str__\<close>, whose \<open>str()\<close> is the default representation
  \<^verbatim>\<open><module.Class object at 0x...>\<close> carried by the value.
\<close>

datatype pyval = PInt int | PStr string | PObj string

fun str_nat :: "nat \<Rightarrow> string" where
  "str_nat n = (if n < 10 then [char_of (48 + n)]
                else str_nat (n div 10) @ [char_of (48 + n mod 10)])"

declare str_nat.simps [simp del]

definition str_int :: "int \<Rightarrow> string" where
  "str_int i = (if i < 0 then CHR ''-'' # str_nat (nat (- i)) else str_nat (nat i))"

fun py_str :: "pyval \<Rightarrow> string" where
  "py_str (PInt i) = str_int i"
| "py_str (PStr s) = s"
| "py_str (PObj r) = r"

section \<open>cache.py: the result cache\<close>

text \<open>
  The Redis client as the decorator sees it: the stored entries (value and TTL per key), and
  the exception, if any, that \<open>get\<close> and \<open>setex\<close> raise.
\<close>

record redis_client =
  entries :: "string \<rightharpoonup> (string \<times> int)"
  get_raises :: "exn option"
  setex_raises :: "exn option"

definition redis_get :: "redis_client \<Rightarrow> string \<Rightarrow> exn + string option" where
  "redis_get c k = (case get_raises c of
                      Some e \<Rightarrow> Inl e
                    | None \<Rightarrow> Inr (map_option fst (entries c k)))"

definition redis_setex :: "redis_client \<Rightarrow> string \<Rightarrow> int \<Rightarrow> string \<Rightarrow> exn + redis_client" where
  "redis_setex c k ttl v = (case setex_raises c of
                              Some e \<Rightarrow> Inl e
                            | None \<Rightarrow> Inr (c\<lparr>entries := (entries c)(k \<mapsto> (v, ttl))\<rparr>))"

text \<open>\<open>except (ConnectionError, TimeoutError)\<close>\<close>

fun redis_caught :: "exn \<Rightarrow> bool" where
  "redis_caught ConnectionError = True"
| "redis_caught TimeoutError = True"
| "redis_caught (Exception m) = False"

text \<open>
  \<open>cache_key = f"{key_prefix}:{args[0]}" if args else f"{key_prefix}:default"\<close>
\<close>

definition cache_key :: "string \<Rightarrow> pyval list \<Rightarrow> string" where
  "cache_key key_prefix args =
     (case args of
        [] \<Rightarrow> key_prefix @ '':default''
      | a # _ \<Rightarrow> key_prefix @ '':'' @ py_str a)"

text \<open>
  The wrapper of \<open>cache_result\<close>. \<open>dumps\<close> and \<open>loads\<close> are \<open>json.dumps\<close> and
  \<open>json.loads\<close>, which raise on a value that is not serialisable and on bytes that are
  not JSON; \<open>client\<close> is the module's \<open>_redis_client\<close>. The decorated function
  \<open>func\<close> runs in a state of its own (a call counter in the tests, the log for the
  recommendation service): it takes the state and returns the new one with its result, so
  that the state after the wrapper tells how often \<open>func\<close> ran. The wrapper returns the
  client after the call, that state, and the value returned or the exception raised.
\<close>

definition compute_fresh ::
  "string \<Rightarrow> int \<Rightarrow> ('v \<Rightarrow> exn + string) \<Rightarrow>
   (pyval list \<Rightarrow> 'kw \<Rightarrow> 's \<Rightarrow> (exn + 'v) \<times> 's) \<Rightarrow>
   redis_client option \<Rightarrow> pyval list \<Rightarrow> 'kw \<Rightarrow> 's \<Rightarrow>
   redis_client option \<times> 's \<times> (exn + 'v)" where
  "compute_fresh key ttl_seconds dumps func client args kwargs s =
     (case func args kwargs s of
        (Inl e, s') \<Rightarrow> (client, s', Inl e)
      | (Inr result, s') \<Rightarrow>
          (case client of
             None \<Rightarrow> (client, s', Inr result)
           | Some c \<Rightarrow>
               (case dumps result of
                  Inl e \<Rightarrow> (client, s', Inl e)
                | Inr bytes \<Rightarrow>
                    (case redis_setex c key ttl_seconds bytes of
                       Inr c' \<Rightarrow> (Some c', s', Inr result)
                     | Inl e \<Rightarrow> if redis_caught e then (client, s', Inr result)
                               else (client, s', Inl e)))))"

definition cache_result ::
  "string \<Rightarrow> int \<Rightarrow> ('v \<Rightarrow> exn + string) \<Rightarrow> (string \<Rightarrow> exn + 'v) \<Rightarrow>
   (pyval list \<Rightarrow> 'kw \<Rightarrow> 's \<Rightarrow> (exn + 'v) \<times> 's) \<Rightarrow>
   redis_client option \<Rightarrow> pyval list \<Rightarrow> 'kw \<Rightarrow> 's \<Rightarrow>
   redis_client option \<times> 's \<times> (exn + 'v)" where
  "cache_result key_prefix ttl_seconds dumps loads func client args kwargs s =
     (let key = cache_key key_prefix args in
      case client of
        None \<Rightarrow> compute_fresh key ttl_seconds dumps func client args kwargs s
      | Some c \<Rightarrow>
          (case redis_get c key of
             Inr (Some cached) \<Rightarrow> (client, s, loads cached)
           | Inr None \<Rightarrow> compute_fresh key ttl_seconds dumps func client args kwargs s
           | Inl e \<Rightarrow> if redis_caught e
                     then compute_fresh key ttl_seconds dumps func client args kwargs s
                     else (client, s, Inl e)))"

text \<open>
  A method call \<open>obj.m(a, ...)\<close> on a function defined in a class body passes the
  instance as the first positional argument: the wrapper, which replaces the function in
  the class, receives \<open>args = (self, a, ...)\<close>.
\<close>

definition bound_method_args :: "pyval \<Rightarrow> pyval list \<Rightarrow> pyval list" where
  "bound_method_args self args = self # args"

text \<open>
  The key of \<open>service.recommend_for_user(user_id, top_k=..., ab_group=...)\<close>, decorated
  with \<open>@cache_result(key_prefix="rec", ttl_seconds=300)\<close> (the call of \<open>main.py\<close>).
\<close>

definition recommend_for_user_cache_key :: "pyval \<Rightarrow> int \<Rightarrow> string" where
  "recommend_for_user_cache_key self user_id =
     cache_key ''rec'' (bound_method_args self [PInt user_id])"

section \<open>Python lists, dicts and sets\<close>

text \<open>\<open>xs[:k]\<close>: a negative bound counts from the end.\<close>

definition py_take :: "int \<Rightarrow> 'a list \<Rightarrow> 'a list" where
  "py_take k xs = (if 0 \<le> k then take (nat k) xs else take (length xs - nat (- k)) xs)"

text \<open>
  A dict is an association list with distinct keys in insertion order: storing under a key
  already present replaces the value where it stands, as \<open>AList.update\<close> does.
  \<open>dict_of\<close> is the dict comprehension \<open>{k: v for ...}\<close> over the pairs in order.
\<close>

definition dict_of :: "('k \<times> 'v) list \<Rightarrow> ('k \<times> 'v) list" where
  "dict_of kvs = fold (\<lambda>(k, v) d. AList.update k v d) kvs []"

text \<open>
  \<open>list(s)\<close> for a set \<open>s\<close> of integers that was filled from a list: each element once,
  in the order of the interpreter's hash table, which is a parameter (any order of a list
  without duplicates is the sorting by some rank).
\<close>

definition list_of_set :: "(int \<Rightarrow> int) \<Rightarrow> int list \<Rightarrow> int list" where
  "list_of_set rank xs = sort_key rank (remdups xs)"

text \<open>
  \<open>random.sample(population, k)\<close>: \<open>k\<close> elements drawn without replacement; the draws
  of the generator are the list \<open>rs\<close>. It raises ValueError when \<open>k\<close> is negative or
  larger than the population.
\<close>

fun sample_from :: "nat list \<Rightarrow> 'a list \<Rightarrow> nat \<Rightarrow> 'a list" where
  "sample_from rs pool 0 = []"
| "sample_from rs pool (Suc k) =
     (if pool = [] then []
      else let i = (case rs of [] \<Rightarrow> 0 | r # _ \<Rightarrow> r mod length pool)
           in pool ! i # sample_from (tl rs) (take i pool @ drop (Suc i) pool) k)"

definition random_sample :: "nat list \<Rightarrow> 'a list \<Rightarrow> int \<Rightarrow> exn + 'a list" where
  "random_sample rs population k =
     (if k < 0 \<or> int (length population) < k
      then Inl (Exception ''ValueError: Sample larger than population or is negative'')
      else Inr (sample_from rs population (nat k)))"

record py_runtime =
  set_rank :: "int \<Rightarrow> int"
  random_draws :: "nat list"

text \<open>\<open>str.lower\<close>, \<open>str.strip\<close> and \<open>str.split(sep)\<close> on ASCII strings.\<close>

definition lower_char :: "char \<Rightarrow> char" where
  "lower_char c = (let n = (of_char c :: nat) in if 65 \<le> n \<and> n \<le> 90 then char_of (n + 32) else c)"

definition lower :: "string \<Rightarrow> string" where
  "lower s = map lower_char s"

definition is_space :: "char \<Rightarrow> bool" where
  "is_space c = (let n = (of_char c :: nat) in (9 \<le> n \<and> n \<le> 13) \<or> (28 \<le> n \<and> n \<le> 32))"

definition strip :: "string \<Rightarrow> string" where
  "strip s = rev (dropWhile is_space (rev (dropWhile is_space s)))"

fun split :: "char \<Rightarrow> string \<Rightarrow> string list" where
  "split sep [] = [[]]"
| "split sep (c # cs) =
     (if c = sep then [] # split sep cs
      else (case split sep cs of
              [] \<Rightarrow> [[c]]
            | w # ws \<Rightarrow> (c # w) # ws))"

section \<open>models/schemas.py and the stores\<close>

text \<open>
  Scores and vector components are floats in the source; they are rationals here, so
  rounding and the special values (NaN, infinities) are outside the model.
\<close>

record movie =
  mv_id :: int
  mv_title :: string
  mv_genres :: string
  mv_poster_url :: "string option"
  mv_score :: rat

text \<open>A row of the table \<open>movies\<close>: \<open>movie_id, title, genres, poster_url\<close>.\<close>

record movie_row =
  row_movie_id :: int
  row_title :: string
  row_genres :: string
  row_poster_url :: "string option"

text \<open>
  The PostgreSQL database behind \<open>MovieRepository\<close>: the rows of the table in the order
  a query returns them, whether a connection can be opened, and the \<open>ILIKE\<close> operator
  (pattern, then text).
\<close>

record database =
  movies_table :: "movie_row list"
  available :: bool
  ilike :: "string \<Rightarrow> string \<Rightarrow> bool"

text \<open>A point of the Qdrant collection as a query returns it, and the vector index.\<close>

record point =
  payload_movie_id :: int
  point_score :: rat

record qdrant =
  query_points :: "rat list \<Rightarrow> int \<Rightarrow> exn + point list"
  retrieve :: "int list \<Rightarrow> exn + rat list option list"

text \<open>An element of the list \<open>search_similar\<close> returns: \<open>{"movie_id": ..., "score": ...}\<close>.\<close>

record hit =
  movie_id :: int
  score :: rat

section \<open>repositories/movie\_repository.py\<close>

definition get_movies_by_ids :: "database \<Rightarrow> int list \<Rightarrow> exn + (int \<times> movie_row) list" where
  "get_movies_by_ids db movie_ids =
     (if movie_ids = [] then Inr []
      else if \<not> available db then Inl (Exception ''OperationalError'')
      else Inr (dict_of (map (\<lambda>row. (row_movie_id row, row))
                          (filter (\<lambda>row. row_movie_id row \<in> set movie_ids) (movies_table db)))))"

datatype column = Genres | Title

definition find_movies_by_criteria ::
  "database \<Rightarrow> string list option \<Rightarrow> string list option \<Rightarrow> int \<Rightarrow> exn + int list" where
  "find_movies_by_criteria db genres keywords limit =
     (let conditions =
            map (\<lambda>genre. (Genres, ''%'' @ genre @ ''%'')) (case genres of None \<Rightarrow> [] | Some gs \<Rightarrow> gs)
            @ map (\<lambda>kw. (Title, ''%'' @ kw @ ''%'')) (case keywords of None \<Rightarrow> [] | Some ks \<Rightarrow> ks)
      in if conditions = [] then Inr []
         else if \<not> available db then Inl (Exception ''OperationalError'')
         else if limit < 0 then Inl (Exception ''InvalidRowCountInLimitClause'')
         else Inr (map row_movie_id
                     (take (nat limit)
                        (filter (\<lambda>row. \<exists>(col, pat) \<in> set conditions.
                                          ilike db pat (case col of Genres \<Rightarrow> row_genres row
                                                                  | Title \<Rightarrow> row_title row))
                                (movies_table db)))))"

section \<open>repositories/vector\_repository.py\<close>

definition search_similar :: "qdrant \<Rightarrow> rat list \<Rightarrow> int \<Rightarrow> exn + hit list" where
  "search_similar q query_vector limit =
     (case query_points q query_vector limit of
        Inl e \<Rightarrow> Inl e
      | Inr result \<Rightarrow>
          Inr (map (\<lambda>pt. \<lparr>movie_id = payload_movie_id pt, score = point_score pt\<rparr>) result))"

definition get_vectors_by_ids :: "qdrant \<Rightarrow> int list \<Rightarrow> exn + rat list list" where
  "get_vectors_by_ids q movie_ids =
     (if movie_ids = [] then Inr []
      else case retrieve q movie_ids of
             Inl e \<Rightarrow> Inl e
           | Inr points \<Rightarrow>
               Inr (List.map_filter (\<lambda>v. case v of None \<Rightarrow> None
                                            | Some w \<Rightarrow> if w = [] then None else Some w) points))"

text \<open>
  \<open>np.mean(vectors, axis=0)\<close> for the non-empty list of vectors \<open>v # vs\<close> (both callers
  test for the empty list first): the rows are added in order and the sum is divided by
  their number; rows of different lengths make no array.
\<close>

definition np_mean_axis0 :: "rat list \<Rightarrow> rat list list \<Rightarrow> exn + rat list" where
  "np_mean_axis0 v vs =
     (if \<exists>w \<in> set vs. length w \<noteq> length v
      then Inl (Exception ''ValueError: inhomogeneous shape'')
      else Inr (map (\<lambda>x. x / of_nat (length (v # vs)))
                    (fold (\<lambda>w acc. map2 (+) acc w) vs v)))"

definition compute_centroid :: "rat list list \<Rightarrow> exn + rat list" where
  "compute_centroid vectors =
     (case vectors of
        [] \<Rightarrow> Inr []
      | v # vs \<Rightarrow> np_mean_axis0 v vs)"

section \<open>features.py: experiment assignment\<close>

text \<open>
  \<open>hashlib.sha256\<close> (FIPS 180-4) on 32-bit words: the functions of the standard, the
  round constants, the initial hash value, the padding of the message to a multiple of
  64 bytes with its length in bits, the message schedule, the 64 rounds of the
  compression of a block, and the blocks in sequence. The digest is the list of the eight
  words of the final hash value.
\<close>

type_synonym u32 = "32 word"

definition rotr :: "nat \<Rightarrow> u32 \<Rightarrow> u32" where
  "rotr n x = or (drop_bit n x) (push_bit (32 - n) x)"

definition ch :: "u32 \<Rightarrow> u32 \<Rightarrow> u32 \<Rightarrow> u32" where
  "ch x y z = xor (and x y) (and (not x) z)"

definition maj :: "u32 \<Rightarrow> u32 \<Rightarrow> u32 \<Rightarrow> u32" where
  "maj x y z = xor (xor (and x y) (and x z)) (and y z)"

definition bsig0 :: "u32 \<Rightarrow> u32" where
  "bsig0 x = xor (xor (rotr 2 x) (rotr 13 x)) (rotr 22 x)"

definition bsig1 :: "u32 \<Rightarrow> u32" where
  "bsig1 x = xor (xor (rotr 6 x) (rotr 11 x)) (rotr 25 x)"

definition ssig0 :: "u32 \<Rightarrow> u32" where
  "ssig0 x = xor (xor (rotr 7 x) (rotr 18 x)) (drop_bit 3 x)"

definition ssig1 :: "u32 \<Rightarrow> u32" where
  "ssig1 x = xor (xor (rotr 17 x) (rotr 19 x)) (drop_bit 10 x)"

definition sha256_k :: "u32 list" where
  "sha256_k =
     [1116352408, 1899447441, 3049323471, 3921009573, 961987163, 1508970993, 2453635748,
      2870763221, 3624381080, 310598401, 607225278, 1426881987, 1925078388, 2162078206,
      2614888103, 3248222580, 3835390401, 4022224774, 264347078, 604807628, 770255983,
      1249150122, 1555081692, 1996064986, 2554220882, 2821834349, 2952996808, 3210313671,
      3336571891, 3584528711, 113926993, 338241895, 666307205, 773529912, 1294757372,
      1396182291, 1695183700, 1986661051, 2177026350, 2456956037, 2730485921, 2820302411,
      3259730800, 3345764771, 3516065817, 3600352804, 4094571909, 275423344, 430227734,
      506948616, 659060556, 883997877, 958139571, 1322822218, 1537002063, 1747873779,
      1955562222, 2024104815, 2227730452, 2361852424, 2428436474, 2756734187, 3204031479,
      3329325298]"

definition sha256_h0 :: "u32 list" where
  "sha256_h0 = [1779033703, 3144134277, 1013904242, 2773480762,
                1359893119, 2600822924, 528734635, 1541459225]"

definition be64 :: "int \<Rightarrow> int list" where
  "be64 n = [n div 72057594037927936 mod 256, n div 281474976710656 mod 256,
             n div 1099511627776 mod 256, n div 4294967296 mod 256,
             n div 16777216 mod 256, n div 65536 mod 256, n div 256 mod 256, n mod 256]"

definition sha256_pad :: "int list \<Rightarrow> int list" where
  "sha256_pad bytes = bytes @ [128] @ replicate (nat ((55 - int (length bytes)) mod 64)) 0
                      @ be64 (8 * int (length bytes))"

fun to_words :: "int list \<Rightarrow> u32 list" where
  "to_words (a # b # c # d # rest) = of_int (((a * 256 + b) * 256 + c) * 256 + d) # to_words rest"
| "to_words _ = []"

text \<open>The schedule is built with the newest word first: \<open>w ! 1\<close> is \<open>W[t-2]\<close>.\<close>

fun sha256_extend :: "nat \<Rightarrow> u32 list \<Rightarrow> u32 list" where
  "sha256_extend 0 w = w"
| "sha256_extend (Suc n) w =
     sha256_extend n ((ssig1 (w ! 1) + w ! 6 + ssig0 (w ! 14) + w ! 15) # w)"

definition sha256_schedule :: "u32 list \<Rightarrow> u32 list" where
  "sha256_schedule block = rev (sha256_extend 48 (rev block))"

fun sha256_round :: "u32 \<times> u32 \<Rightarrow> u32 list \<Rightarrow> u32 list" where
  "sha256_round (k, w) [a, b, c, d, e, f, g, h] =
     (let t1 = h + bsig1 e + ch e f g + k + w; t2 = bsig0 a + maj a b c
      in [t1 + t2, a, b, c, d + t1, e, f, g])"
| "sha256_round _ st = st"

definition sha256_compress :: "u32 list \<Rightarrow> u32 list \<Rightarrow> u32 list" where
  "sha256_compress st block =
     map2 (+) st (fold sha256_round (zip sha256_k (sha256_schedule block)) st)"

fun sha256_blocks :: "nat \<Rightarrow> u32 list \<Rightarrow> u32 list \<Rightarrow> u32 list" where
  "sha256_blocks 0 ws st = st"
| "sha256_blocks (Suc n) ws st = sha256_blocks n (drop 16 ws) (sha256_compress st (take 16 ws))"

definition sha256 :: "string \<Rightarrow> u32 list" where
  "sha256 s = (let ws = to_words (sha256_pad (map of_char s))
               in sha256_blocks (length ws div 16) ws sha256_h0)"

text \<open>\<open>hexdigest()\<close>: eight lower-case hexadecimal digits for each word.\<close>

definition hex_digit :: "u32 \<Rightarrow> char" where
  "hex_digit x = ''0123456789abcdef'' ! unat (and x 15)"

definition hex32 :: "u32 \<Rightarrow> string" where
  "hex32 w = [hex_digit (drop_bit 28 w), hex_digit (drop_bit 24 w), hex_digit (drop_bit 20 w),
              hex_digit (drop_bit 16 w), hex_digit (drop_bit 12 w), hex_digit (drop_bit 8 w),
              hex_digit (drop_bit 4 w), hex_digit w]"

definition hexdigest :: "u32 list \<Rightarrow> string" where
  "hexdigest ws = concat (map hex32 ws)"

text \<open>
  \<open>int(s, 16)\<close> for a string of hexadecimal digits; any other character, and the empty
  string, raise ValueError. (The signs, prefixes, underscores and blanks that \<open>int\<close> also
  accepts do not occur in a hexdigest.)
\<close>

definition hex_value :: "char \<Rightarrow> int option" where
  "hex_value c =
     (let n = (of_char c :: int)
      in if 48 \<le> n \<and> n \<le> 57 then Some (n - 48)
         else if 97 \<le> n \<and> n \<le> 102 then Some (n - 87)
         else if 65 \<le> n \<and> n \<le> 70 then Some (n - 55)
         else None)"

fun parse_hex :: "int \<Rightarrow> string \<Rightarrow> exn + int" where
  "parse_hex acc [] = Inr acc"
| "parse_hex acc (c # cs) =
     (case hex_value c of
        None \<Rightarrow> Inl (Exception ''ValueError'')
      | Some d \<Rightarrow> parse_hex (16 * acc + d) cs)"

definition int_base16 :: "string \<Rightarrow> exn + int" where
  "int_base16 s = (if s = [] then Inl (Exception ''ValueError'') else parse_hex 0 s)"

text \<open>\<open>FeatureFlags.ENABLE_AB_TESTING\<close>, a constant of the class.\<close>

definition ENABLE_AB_TESTING :: bool where
  "ENABLE_AB_TESTING = True"

text \<open>
  \<open>get_user_experiment_group\<close>. The argument is an integer or a string; the bytes hashed
  are those of \<open>str(user_id)\<close>.
\<close>

definition get_user_experiment_group :: "pyval \<Rightarrow> exn + string" where
  "get_user_experiment_group user_id =
     (if \<not> ENABLE_AB_TESTING then Inr ''control''
      else let hash_input = py_str user_id
           in case int_base16 (hexdigest (sha256 hash_input)) of
                Inl e \<Rightarrow> Inl e
              | Inr hash_val \<Rightarrow>
                  if hash_val mod 2 = 0 then Inr ''control'' else Inr ''treatment'')"

section \<open>services/search\_service.py\<close>

text \<open>
  \<open>ContentSearchService\<close>: the sentence encoder and the content collection.
  \<open>search\<close> encodes the query, asks the collection for \<open>limit\<close> points and returns
  their movie IDs.
\<close>

record search_service =
  encode :: "string \<Rightarrow> exn + rat list"
  content_query_points :: "rat list \<Rightarrow> int \<Rightarrow> exn + point list"

definition search :: "search_service \<Rightarrow> string \<Rightarrow> int \<Rightarrow> exn + int list" where
  "search ss query limit =
     (case encode ss query of
        Inl e \<Rightarrow> Inl e
      | Inr vector \<Rightarrow>
          (case content_query_points ss vector limit of
             Inl e \<Rightarrow> Inl e
           | Inr results \<Rightarrow> Inr (map payload_movie_id results)))"

section \<open>services/recommendation\_service.py\<close>

text \<open>
  The loaded artifact: \<open>classes_\<close> of the label encoder (the external user IDs, the
  position of an ID being its internal index) and the rows of the embedding matrix.
\<close>

record embedding_data =
  classes :: "int list"
  user_embeddings :: "rat list list"

record service =
  movie_repo :: database
  vector_repo :: qdrant
  loaded :: "embedding_data option"

definition is_ready :: "service \<Rightarrow> bool" where
  "is_ready svc = (loaded svc \<noteq> None)"

fun index_of :: "int \<Rightarrow> int list \<Rightarrow> nat" where
  "index_of x [] = 0"
| "index_of x (y # ys) = (if x = y then 0 else Suc (index_of x ys))"

definition get_user_vector :: "service \<Rightarrow> int \<Rightarrow> exn + rat list option" where
  "get_user_vector svc user_id =
     (case loaded svc of
        None \<Rightarrow> Inr None
      | Some d \<Rightarrow>
          if user_id \<notin> set (classes d) then Inr None
          else let internal_idx = index_of user_id (classes d)
               in if internal_idx < length (user_embeddings d)
                  then Inr (Some (user_embeddings d ! internal_idx))
                  else Inl (Exception ''IndexError''))"

definition get_known_user_ids :: "service \<Rightarrow> int list" where
  "get_known_user_ids svc = (case loaded svc of None \<Rightarrow> [] | Some d \<Rightarrow> classes d)"

text \<open>\<open>_enrich_movies\<close>; \<open>scores\<close> is a dict from movie ID to score.\<close>

definition enrich_movies :: "service \<Rightarrow> int list \<Rightarrow> (int \<times> rat) list \<Rightarrow> exn + movie list" where
  "enrich_movies svc movie_ids scores =
     (case get_movies_by_ids (movie_repo svc) movie_ids of
        Inl e \<Rightarrow> Inl e
      | Inr movie_data \<Rightarrow>
          Inr (List.map_filter
                 (\<lambda>mid. case map_of movie_data mid of
                           None \<Rightarrow> None
                         | Some data \<Rightarrow>
                             Some \<lparr>mv_id = row_movie_id data, mv_title = row_title data,
                                   mv_genres = row_genres data,
                                   mv_poster_url = row_poster_url data,
                                   mv_score = (case map_of scores mid of
                                                 None \<Rightarrow> 0 | Some sc \<Rightarrow> sc)\<rparr>)
                 movie_ids))"

text \<open>
  \<open>_rank_by_genre_similarity\<close>. \<open>list.sort(key=..., reverse=True)\<close> is stable: elements
  with equal keys keep their order, which is the stable ascending sort of the reversed
  list, reversed. The key is the pair \<open>(jaccard, original_score)\<close> in lexicographic order.
\<close>

definition parse_genres :: "string \<Rightarrow> string set" where
  "parse_genres gs = set (map (\<lambda>g. lower (strip g)) (split CHR ''|'' gs))"

definition movie_genres :: "movie \<Rightarrow> string set" where
  "movie_genres m = parse_genres (mv_genres m)"

definition target_set :: "string list \<Rightarrow> string set" where
  "target_set target_genres = set (map lower target_genres)"

definition intersection :: "movie \<Rightarrow> string list \<Rightarrow> nat" where
  "intersection m target_genres = card (movie_genres m \<inter> target_set target_genres)"

definition union :: "movie \<Rightarrow> string list \<Rightarrow> nat" where
  "union m target_genres = card (movie_genres m \<union> target_set target_genres)"

definition jaccard_score :: "movie \<Rightarrow> string list \<Rightarrow> rat" where
  "jaccard_score m target_genres =
     (if union m target_genres > 0
      then of_nat (intersection m target_genres) / of_nat (union m target_genres)
      else 0)"

definition sort_reverse :: "('a \<Rightarrow> 'k::linorder) \<Rightarrow> 'a list \<Rightarrow> 'a list" where
  "sort_reverse key xs = rev (sort_key key (rev xs))"

definition rank_by_genre_similarity :: "movie list \<Rightarrow> string list \<Rightarrow> movie list" where
  "rank_by_genre_similarity movies target_genres =
     (if target_genres = [] then movies
      else let ranked_movies =
                 map (\<lambda>m. (m, jaccard_score m target_genres, mv_score m))
                     (filter (\<lambda>m. intersection m target_genres > 0) movies)
           in map fst (sort_reverse snd ranked_movies))"

text \<open>
  The heap of mutable lists the caller shares with \<open>recommend_cold_start\<close>: lists of
  integers and lists of strings, each under its address. An argument that is a list is an
  address, or \<open>None\<close>.
\<close>

record heap =
  int_lists :: "nat \<Rightarrow> int list"
  str_lists :: "nat \<Rightarrow> string list"

text \<open>
  \<open>recommend_cold_start\<close> from \<open># 1. Fetch vectors for selected movies\<close> on, where
  \<open>selected_movie_ids\<close>, \<open>genres\<close> and \<open>keywords\<close> are only read. The fallback by
  criteria returns the rows of the store as they are: they carry no score, and the
  \<open>Movie\<close> they become has the default score 0.
\<close>

definition cold_start_from ::
  "service \<Rightarrow> py_runtime \<Rightarrow> int list \<Rightarrow> string list option \<Rightarrow> string list option \<Rightarrow> int \<Rightarrow>
   exn + movie list" where
  "cold_start_from svc rt selected_movie_ids genres keywords top_k =
     (case (if selected_movie_ids \<noteq> []
            then get_vectors_by_ids (vector_repo svc) selected_movie_ids else Inr []) of
        Inl e \<Rightarrow> Inl e
      | Inr (v # vs) \<Rightarrow>
          (case np_mean_axis0 v vs of
             Inl e \<Rightarrow> Inl e
           | Inr target_vector \<Rightarrow>
               (case search_similar (vector_repo svc) target_vector (top_k * 2) of
                  Inl e \<Rightarrow> Inl e
                | Inr results \<Rightarrow>
                    (let recommended_movie_ids =
                           map movie_id
                             (filter (\<lambda>r. movie_id r \<notin> set selected_movie_ids) results);
                         scores = dict_of (map (\<lambda>r. (movie_id r, score r)) results)
                     in case enrich_movies svc recommended_movie_ids scores of
                          Inl e \<Rightarrow> Inl e
                        | Inr enriched_movies \<Rightarrow>
                            Inr (py_take top_k
                                   (case genres of
                                      None \<Rightarrow> enriched_movies
                                    | Some gs \<Rightarrow>
                                        if gs = [] then enriched_movies
                                        else rank_by_genre_similarity enriched_movies gs)))))
      | Inr [] \<Rightarrow>
          (if (genres \<noteq> None \<and> genres \<noteq> Some []) \<or> (keywords \<noteq> None \<and> keywords \<noteq> Some [])
           then (case find_movies_by_criteria (movie_repo svc) genres keywords 50 of
                   Inl e \<Rightarrow> Inl e
                 | Inr candidates_list \<Rightarrow>
                     (let candidates = list_of_set (set_rank rt) candidates_list
                      in if candidates \<noteq> []
                         then (case get_movies_by_ids (movie_repo svc) (py_take top_k candidates) of
                                 Inl e \<Rightarrow> Inl e
                               | Inr movie_data \<Rightarrow>
                                   Inr (map (\<lambda>(k, data).
                                               \<lparr>mv_id = row_movie_id data, mv_title = row_title data,
                                                mv_genres = row_genres data,
                                                mv_poster_url = row_poster_url data,
                                                mv_score = 0\<rparr>) movie_data))
                         else Inr []))
           else Inr []))"

text \<open>
  \<open>recommend_cold_start\<close>. \<open>selected_movie_ids\<close>, \<open>genres\<close> and \<open>keywords\<close> are
  addresses in the heap (or \<open>None\<close>). When the caller gives no list of IDs, the list is a
  fresh one that only this call holds; otherwise \<open>extend\<close> writes to the caller's list.
  \<open>neural_search\<close> is the step \<open># 0. Neural Search\<close>: it returns the heap after it and
  the contents of \<open>selected_movie_ids\<close> then, the seeds of the rest of the function. The
  result of \<open>recommend_cold_start\<close> is the heap after the call and the value returned or
  the exception raised.
\<close>

definition neural_search ::
  "heap \<Rightarrow> nat option \<Rightarrow> string option \<Rightarrow> search_service option \<Rightarrow> heap \<times> int list" where
  "neural_search h selected_movie_ids query search_svc =
     (let ids = (case selected_movie_ids of None \<Rightarrow> [] | Some a \<Rightarrow> int_lists h a)
      in case (query, search_svc) of
           (Some q, Some ss) \<Rightarrow>
             if q = [] then (h, ids)
             else (case search ss q 5 of
                     Inr search_ids \<Rightarrow>
                       ((case selected_movie_ids of
                           None \<Rightarrow> h
                         | Some a \<Rightarrow> h\<lparr>int_lists := (int_lists h)(a := ids @ search_ids)\<rparr>),
                        ids @ search_ids)
                   | Inl e \<Rightarrow> (h, ids))
         | _ \<Rightarrow> (h, ids))"

definition recommend_cold_start ::
  "service \<Rightarrow> py_runtime \<Rightarrow> heap \<Rightarrow> nat option \<Rightarrow> nat option \<Rightarrow> nat option \<Rightarrow>
   string option \<Rightarrow> search_service option \<Rightarrow> int \<Rightarrow> heap \<times> (exn + movie list)" where
  "recommend_cold_start svc rt h selected_movie_ids genres keywords query search_svc top_k =
     (case neural_search h selected_movie_ids query search_svc of
        (h', ids) \<Rightarrow>
          (h', cold_start_from svc rt ids
                 (map_option (str_lists h') genres) (map_option (str_lists h') keywords) top_k))"

text \<open>
  \<open>recommend_for_user\<close> as written, before the decorator. The calls of the logger are
  the state: the function takes the log and returns it extended. \<open>try_recommend_for_user\<close>
  is the body of the \<open>try\<close>; the handler of \<open>except Exception\<close> logs the error and
  returns the empty list.
\<close>

datatype log_event = Debug string | Info string | Warning string | Error string exn

definition try_recommend_for_user ::
  "service \<Rightarrow> py_runtime \<Rightarrow> heap \<Rightarrow> int \<Rightarrow> int \<Rightarrow> string \<Rightarrow> log_event list \<Rightarrow>
   (exn + movie list) \<times> log_event list" where
  "try_recommend_for_user svc rt h user_id top_k ab_group logs =
     (let logs1 = (if ab_group = ''treatment''
                  then logs @ [Debug (''Serving recommendation for Variant B (Discovery Mode) to user ''
                                     @ str_int user_id)]
                  else logs)
      in case get_user_vector svc user_id of
           Inl e \<Rightarrow> (Inl e, logs1)
         | Inr None \<Rightarrow>
             (snd (recommend_cold_start svc rt h None None None None None top_k),
              logs1 @ [Warning (''User '' @ str_int user_id
                               @ '' has no vector. Falling back to cold start.'')])
         | Inr (Some user_vector) \<Rightarrow>
             (let search_k = (if ab_group = ''treatment'' then top_k * 2 else top_k)
              in case search_similar (vector_repo svc) user_vector search_k of
                   Inl e \<Rightarrow> (Inl e, logs1)
                 | Inr recommendations \<Rightarrow>
                     (case (if ab_group = ''treatment'' \<and> int (length recommendations) > top_k
                            then random_sample (random_draws rt) recommendations top_k
                            else Inr recommendations) of
                        Inl e \<Rightarrow> (Inl e, logs1)
                      | Inr recommendations' \<Rightarrow>
                          (enrich_movies svc (map movie_id recommendations')
                             (dict_of (map (\<lambda>r. (movie_id r, score r)) recommendations')),
                           logs1))))"

definition recommend_for_user_body ::
  "service \<Rightarrow> py_runtime \<Rightarrow> heap \<Rightarrow> int \<Rightarrow> int \<Rightarrow> string \<Rightarrow> log_event list \<Rightarrow>
   movie list \<times> log_event list" where
  "recommend_for_user_body svc rt h user_id top_k ab_group logs =
     (case try_recommend_for_user svc rt h user_id top_k ab_group logs of
        (Inr movies, logs') \<Rightarrow> (movies, logs')
      | (Inl e, logs') \<Rightarrow>
          ([], logs' @ [Error (''Error generating recommendations for user '' @ str_int user_id) e]))"

text \<open>
  \<open>recommend_for_user\<close> as the class has it, under
  \<open>@cache_result(key_prefix="rec", ttl_seconds=300)\<close>, called as
  \<open>self.recommend_for_user(user_id, top_k=top_k, ab_group=ab_group)\<close>.
\<close>

definition recommend_for_user ::
  "(movie list \<Rightarrow> exn + string) \<Rightarrow> (string \<Rightarrow> exn + movie list) \<Rightarrow> redis_client option \<Rightarrow>
   service \<Rightarrow> py_runtime \<Rightarrow> heap \<Rightarrow> pyval \<Rightarrow> int \<Rightarrow> int \<Rightarrow> string \<Rightarrow> log_event list \<Rightarrow>
   redis_client option \<times> log_event list \<times> (exn + movie list)" where
  "recommend_for_user dumps loads client svc rt h self user_id top_k ab_group logs =
     cache_result ''rec'' 300 dumps loads
       (\<lambda>args (top_k', ab_group') logs'.
          case args of
            [_, PInt user_id'] \<Rightarrow>
              (case recommend_for_user_body svc rt h user_id' top_k' ab_group' logs' of
                 (movies, logs'') \<Rightarrow> (Inr movies, logs''))
          | _ \<Rightarrow> (Inl (Exception ''TypeError''), logs'))
       client (bound_method_args self [PInt user_id]) (top_k, ab_group) logs"

section \<open>Predicates of the statements and fixtures of the examples\<close>

text \<open>The metadata store has a record for the movie ID.\<close>

definition has_record :: "service \<Rightarrow> int \<Rightarrow> bool" where
  "has_record svc mid = (\<exists>row \<in> set (movies_table (movie_repo svc)). row_movie_id row = mid)"

text \<open>The store of \<open>tests/test_service.py\<close>: three movies; an index that finds nothing.\<close>

definition test_movies_table :: "movie_row list" where
  "test_movies_table =
     [\<lparr>row_movie_id = 1, row_title = ''Movie 1'', row_genres = ''Action'', row_poster_url = None\<rparr>,
      \<lparr>row_movie_id = 2, row_title = ''Movie 2'', row_genres = ''Comedy'', row_poster_url = None\<rparr>,
      \<lparr>row_movie_id = 3, row_title = ''Movie 3'', row_genres = ''Drama'', row_poster_url = None\<rparr>]"

definition test_db :: database where
  "test_db = \<lparr>movies_table = test_movies_table, available = True, ilike = (\<lambda>pat text. False)\<rparr>"

definition empty_index :: qdrant where
  "empty_index = \<lparr>query_points = (\<lambda>v k. Inr []), retrieve = (\<lambda>ids. Inr [])\<rparr>"

definition test_service :: service where
  "test_service = \<lparr>movie_repo = test_db, vector_repo = empty_index, loaded = None\<rparr>"

text \<open>
  A store of four movies and an index over them in which movie 1, the seed of the
  examples, has the vector \<open>[1, 0]\<close>. A query returns the first \<open>k\<close> of the points
  10, 11, 12, 1 and is refused for a negative \<open>k\<close>; \<open>ILIKE\<close> is containment without
  regard to case, for patterns \<open>%word%\<close>. User 7 is the one known user.
\<close>

definition demo_table :: "movie_row list" where
  "demo_table =
     [\<lparr>row_movie_id = 1, row_title = ''One'', row_genres = ''Action'', row_poster_url = None\<rparr>,
      \<lparr>row_movie_id = 10, row_title = ''Ten'', row_genres = ''Action|Drama'', row_poster_url = None\<rparr>,
      \<lparr>row_movie_id = 11, row_title = ''Eleven'', row_genres = ''Comedy'', row_poster_url = None\<rparr>,
      \<lparr>row_movie_id = 12, row_title = ''Twelve'', row_genres = ''Action|Sci-Fi'',
        row_poster_url = None\<rparr>]"

fun contains :: "string \<Rightarrow> string \<Rightarrow> bool" where
  "contains needle [] = (needle = [])"
| "contains needle (c # cs) = (take (length needle) (c # cs) = needle \<or> contains needle cs)"

definition demo_ilike :: "string \<Rightarrow> string \<Rightarrow> bool" where
  "demo_ilike pat text = contains (lower (filter (\<lambda>c. c \<noteq> CHR ''%'') pat)) (lower text)"

definition demo_points :: "point list" where
  "demo_points =
     [\<lparr>payload_movie_id = 10, point_score = 9/10\<rparr>, \<lparr>payload_movie_id = 11, point_score = 8/10\<rparr>,
      \<lparr>payload_movie_id = 12, point_score = 7/10\<rparr>, \<lparr>payload_movie_id = 1, point_score = 6/10\<rparr>]"

definition demo_index :: qdrant where
  "demo_index =
     \<lparr>query_points = (\<lambda>v k. if k < 0 then Inl (Exception ''UnexpectedResponse: limit'')
                            else Inr (take (nat k) demo_points)),
      retrieve = (\<lambda>ids. Inr (map (\<lambda>i. Some [1, 0]) (filter (\<lambda>i. i = 1) ids)))\<rparr>"

definition demo_service :: service where
  "demo_service =
     \<lparr>movie_repo = \<lparr>movies_table = demo_table, available = True, ilike = demo_ilike\<rparr>,
      vector_repo = demo_index,
      loaded = Some \<lparr>classes = [7], user_embeddings = [[1, 0]]\<rparr>\<rparr>"

definition demo_runtime :: py_runtime where
  "demo_runtime = \<lparr>set_rank = (\<lambda>i. i), random_draws = [2, 0, 1]\<rparr>"

definition demo_movie :: "int \<Rightarrow> string \<Rightarrow> string \<Rightarrow> rat \<Rightarrow> movie" where
  "demo_movie i t g s = \<lparr>mv_id = i, mv_title = t, mv_genres = g, mv_poster_url = None, mv_score = s\<rparr>"

text \<open>The three movies the index finds for the seed, as enriched.\<close>

definition demo_enriched :: "movie list" where
  "demo_enriched =
     [demo_movie 10 ''Ten'' ''Action|Drama'' (9/10), demo_movie 11 ''Eleven'' ''Comedy'' (8/10),
      demo_movie 12 ''Twelve'' ''Action|Sci-Fi'' (7/10)]"

text \<open>
  A content search that finds movie 12 for every query, and a heap in which address 0
  holds the caller's list of selected IDs \<open>[1]\<close> and the caller's genres.
\<close>

definition demo_search :: search_service where
  "demo_search =
     \<lparr>encode = (\<lambda>q. Inr [0, 1]),
      content_query_points =
        (\<lambda>v k. Inr (take (nat k) [\<lparr>payload_movie_id = 12, point_score = 1/2\<rparr>]))\<rparr>"

definition demo_heap :: heap where
  "demo_heap = \<lparr>int_lists = (\<lambda>a. if a = 0 then [1] else []),
                str_lists = (\<lambda>a. if a = 0 then [''Action'', ''Sci-Fi''] else [])\<rparr>"

text \<open>
  The cold-start fallback of \<open>recommend_for_user\<close> was taken: the warning that precedes
  the call of \<open>recommend_cold_start\<close> is in the log.
\<close>

definition fell_back :: "int \<Rightarrow> log_event list \<Rightarrow> bool" where
  "fell_back user_id logs =
     (Warning (''User '' @ str_int user_id @ '' has no vector. Falling back to cold start.'')
      \<in> set logs)"

text \<open>The demo service with an index that finds nothing, and with one that fails.\<close>

definition failing_index :: qdrant where
  "failing_index =
     \<lparr>query_points = (\<lambda>v k. Inl (Exception ''ResponseHandlingException'')),
      retrieve = (\<lambda>ids. Inl (Exception ''ResponseHandlingException''))\<rparr>"

definition quiet_service :: service where
  "quiet_service = demo_service\<lparr>vector_repo := empty_index\<rparr>"

definition broken_service :: service where
  "broken_service = demo_service\<lparr>vector_repo := failing_index\<rparr>"

text \<open>A result respects the bound: at most \<open>top_k\<close> movies, no movie ID twice.\<close>

definition within_bound :: "int \<Rightarrow> movie list \<Rightarrow> bool" where
  "within_bound top_k movies = (int (length movies) \<le> top_k \<and> distinct (map mv_id movies))"

text \<open>The 4-bit groups of a digest, highest first, one for each digit of the hexdigest.\<close>

definition nibbles :: "u32 list \<Rightarrow> u32 list" where
  "nibbles ws = concat (map (\<lambda>w. [drop_bit 28 w, drop_bit 24 w, drop_bit 20 w, drop_bit 16 w,
                                    drop_bit 12 w, drop_bit 8 w, drop_bit 4 w, w]) ws)"

text \<open>
  A service instance as \<open>str()\<close> shows it, and a cache that holds the empty list
  under the key of that instance.
\<close>

definition demo_self :: pyval where
  "demo_self = PObj ''<services.recommendation_service.RecommendationService object at 0x7f2a>''"

definition shared_cache :: redis_client where
  "shared_cache =
     \<lparr>entries = [''rec:<services.recommendation_service.RecommendationService object at 0x7f2a>''
                  \<mapsto> (''[]'', 300)],
      get_raises = None, setex_raises = None\<rparr>"

text \<open>
  The caller's lists of a cold start that selects movie 10 and the genre \<open>Action\<close>.
\<close>

definition seed_10_heap :: heap where
  "seed_10_heap = \<lparr>int_lists = (\<lambda>a. if a = 0 then [10] else []),
                   str_lists = (\<lambda>a. if a = 0 then [''Action''] else [])\<rparr>"

text \<open>
  \<open>json.dumps\<close> on what \<open>recommend_for_user\<close> returns: the empty list is \<open>[]\<close>, and a
  list that holds a \<open>Movie\<close>, an object the encoder does not know, raises TypeError. A
  cache without entries, and one whose reads fail.
\<close>

definition dumps_movies :: "movie list \<Rightarrow> exn + string" where
  "dumps_movies movies =
     (if movies = [] then Inr ''[]''
      else Inl (Exception ''TypeError: Object of type Movie is not JSON serializable''))"

definition empty_cache :: redis_client where
  "empty_cache = \<lparr>entries = Map.empty, get_raises = None, setex_raises = None\<rparr>"

definition unreadable_cache :: redis_client where
  "unreadable_cache = \<lparr>entries = Map.empty, get_raises = Some ConnectionError, setex_raises = None\<rparr>"

section \<open>Results\<close>

subsection \<open>The cached wrapper\<close>

lemma cache_key_rec_123: "cache_key ''rec'' [PInt 123] = ''rec:123''"
  by code_simp

text \<open>
  What the wrapper of \<open>cache_result\<close> does for a computation whose result
  \<open>json.dumps\<close> can serialise. (1) When the cache holds bytes for the key and they decode,
  the decoded value is returned and the computation has not run: its state is the one
  before the call. (2) When the key is absent, the computation runs once (its state is the
  state after one run), the serialised result is stored under the key with the TTL, and
  the result is returned. (3) When the read raises ConnectionError or TimeoutError, the
  computation runs once and its result is returned, whatever the write does among
  succeeding and raising one of these two. (4) When the write raises one of them, after a
  miss or a failed read, the result is returned and the cache is as before.
\<close>

lemma cache_aside_when_serialisable:
  fixes func :: "pyval list \<Rightarrow> 'kw \<Rightarrow> 's \<Rightarrow> (exn + 'v) \<times> 's"
  shows
  "(redis_get c (cache_key p args) = Inr (Some cached) \<and> loads cached = Inr v \<longrightarrow>
      cache_result p ttl dumps loads func (Some c) args kw s = (Some c, s, Inr v))
   \<and> (redis_get c (cache_key p args) = Inr None \<and> func args kw s = (Inr r, s') \<and>
        dumps r = Inr bytes \<and> setex_raises c = None \<longrightarrow>
      cache_result p ttl dumps loads func (Some c) args kw s
        = (Some (c\<lparr>entries := (entries c)(cache_key p args \<mapsto> (bytes, ttl))\<rparr>), s', Inr r))
   \<and> (redis_get c (cache_key p args) = Inl e \<and> redis_caught e \<and> func args kw s = (Inr r, s') \<and>
        dumps r = Inr bytes \<and> (\<forall>e'. setex_raises c = Some e' \<longrightarrow> redis_caught e') \<longrightarrow>
      (\<exists>c'. cache_result p ttl dumps loads func (Some c) args kw s = (c', s', Inr r)))
   \<and> ((redis_get c (cache_key p args) = Inr None
         \<or> redis_get c (cache_key p args) = Inl e \<and> redis_caught e) \<and>
        func args kw s = (Inr r, s') \<and> dumps r = Inr bytes \<and>
        setex_raises c = Some e' \<and> redis_caught e' \<longrightarrow>
      cache_result p ttl dumps loads func (Some c) args kw s = (Some c, s', Inr r))"
  by (auto simp: cache_result_def compute_fresh_def redis_setex_def Let_def
           split: option.splits sum.splits)

text \<open>
  The three tests of \<open>tests/test_cache.py\<close> and a failing write, with a call counter as
  the state of the computation: a hit leaves the counter at 0, the others at 1.
\<close>

lemma cache_aside_examples:
  "cache_result ''rec'' 300 (\<lambda>v. Inr ''[2]'') (\<lambda>b. Inr [1::int])
       (\<lambda>args kw n. (Inr [2], Suc n))
       (Some \<lparr>entries = [''rec:123'' \<mapsto> (''[1]'', 300)], get_raises = None, setex_raises = None\<rparr>)
       [PInt 123] () (0::nat)
     = (Some \<lparr>entries = [''rec:123'' \<mapsto> (''[1]'', 300)], get_raises = None, setex_raises = None\<rparr>,
        0, Inr [1])
   \<and> cache_result ''rec'' 300 (\<lambda>v. Inr ''[2]'') (\<lambda>b. Inr [1::int])
       (\<lambda>args kw n. (Inr [2], Suc n))
       (Some \<lparr>entries = Map.empty, get_raises = None, setex_raises = None\<rparr>)
       [PInt 123] () (0::nat)
     = (Some \<lparr>entries = [''rec:123'' \<mapsto> (''[2]'', 300)], get_raises = None, setex_raises = None\<rparr>,
        1, Inr [2])
   \<and> (\<exists>c'. cache_result ''rec'' 300 (\<lambda>v. Inr ''[2]'') (\<lambda>b. Inr [1::int])
       (\<lambda>args kw n. (Inr [2], Suc n))
       (Some \<lparr>entries = Map.empty, get_raises = Some ConnectionError, setex_raises = None\<rparr>)
       [PInt 123] () (0::nat)
     = (c', 1, Inr [2]))
   \<and> cache_result ''rec'' 300 (\<lambda>v. Inr ''[2]'') (\<lambda>b. Inr [1::int])
       (\<lambda>args kw n. (Inr [2], Suc n))
       (Some \<lparr>entries = Map.empty, get_raises = None, setex_raises = Some TimeoutError\<rparr>)
       [PInt 123] () (0::nat)
     = (Some \<lparr>entries = Map.empty, get_raises = None, setex_raises = Some TimeoutError\<rparr>,
        1, Inr [2])"
proof -
  let ?d = "\<lambda>v::int list. (Inr ''[2]'' :: exn + string)"
  let ?l = "\<lambda>b::string. (Inr [1::int] :: exn + int list)"
  let ?f = "\<lambda>(args::pyval list) (kw::unit) (n::nat). (Inr [2::int] :: exn + int list, Suc n)"
  note T = cache_aside_when_serialisable[where p="''rec''" and args="[PInt 123]" and ttl=300
      and dumps="?d" and loads="?l" and func="?f" and kw="()" and s="0::nat" and s'="1::nat"
      and r="[2]" and bytes="''[2]''" and v="[1]" and cached="''[1]''"]
  have hit: "cache_result ''rec'' 300 ?d ?l ?f
       (Some \<lparr>entries = [''rec:123'' \<mapsto> (''[1]'', 300)], get_raises = None, setex_raises = None\<rparr>)
       [PInt 123] () (0::nat)
     = (Some \<lparr>entries = [''rec:123'' \<mapsto> (''[1]'', 300)], get_raises = None, setex_raises = None\<rparr>,
        0, Inr [1])"
    using T[where c="\<lparr>entries = [''rec:123'' \<mapsto> (''[1]'', 300)], get_raises = None,
                      setex_raises = None\<rparr>"]
    by (simp add: cache_key_rec_123 redis_get_def)
  have miss: "cache_result ''rec'' 300 ?d ?l ?f
       (Some \<lparr>entries = Map.empty, get_raises = None, setex_raises = None\<rparr>)
       [PInt 123] () (0::nat)
     = (Some \<lparr>entries = [''rec:123'' \<mapsto> (''[2]'', 300)], get_raises = None, setex_raises = None\<rparr>,
        1, Inr [2])"
    using T[where c="\<lparr>entries = Map.empty, get_raises = None, setex_raises = None\<rparr>"]
    by (simp add: cache_key_rec_123 redis_get_def)
  have read_error: "\<exists>c'. cache_result ''rec'' 300 ?d ?l ?f
       (Some \<lparr>entries = Map.empty, get_raises = Some ConnectionError, setex_raises = None\<rparr>)
       [PInt 123] () (0::nat)
     = (c', 1, Inr [2])"
    using T[where c="\<lparr>entries = Map.empty, get_raises = Some ConnectionError,
                      setex_raises = None\<rparr>" and e=ConnectionError]
    by (simp add: cache_key_rec_123 redis_get_def)
  have write_error: "cache_result ''rec'' 300 ?d ?l ?f
       (Some \<lparr>entries = Map.empty, get_raises = None, setex_raises = Some TimeoutError\<rparr>)
       [PInt 123] () (0::nat)
     = (Some \<lparr>entries = Map.empty, get_raises = None, setex_raises = Some TimeoutError\<rparr>,
        1, Inr [2])"
    using T[where c="\<lparr>entries = Map.empty, get_raises = None,
                      setex_raises = Some TimeoutError\<rparr>" and e'=TimeoutError]
    by (simp add: cache_key_rec_123 redis_get_def)
  from hit miss read_error write_error show ?thesis by blast
qed

subsection \<open>Dicts and the metadata store\<close>

lemma map_of_fold_update:
  "map_of (fold (\<lambda>(k, v) d. AList.update k v d) kvs d) = map_of d ++ map_of (rev kvs)"
proof (induction kvs arbitrary: d)
  case Nil
  then show ?case by simp
next
  case (Cons kv kvs)
  obtain k v where kv: "kv = (k, v)" by (cases kv)
  show ?case
    unfolding kv fold_Cons comp_apply case_prod_conv Cons.IH update_conv' rev.simps map_of_append
    by (rule ext) (simp add: map_add_def split: option.splits)
qed

lemma map_of_dict_of: "map_of (dict_of kvs) = map_of (rev kvs)"
  by (simp add: dict_of_def map_of_fold_update)

lemma distinct_fold_update:
  "distinct (map fst d) \<Longrightarrow> distinct (map fst (fold (\<lambda>(k, v) d. AList.update k v d) kvs d))"
  by (induction kvs arbitrary: d) (auto simp: distinct_update)

lemma distinct_dict_of: "distinct (map fst (dict_of kvs))"
  by (simp add: dict_of_def distinct_fold_update)

lemma dom_dict_of: "fst ` set (dict_of kvs) = fst ` set kvs"
proof -
  have "dom (map_of (dict_of kvs)) = dom (map_of (rev kvs))"
    by (simp add: map_of_dict_of)
  then show ?thesis
    by (simp add: dom_map_of_conv_image_fst)
qed

lemma movie_data_Some:
  assumes "get_movies_by_ids db movie_ids = Inr movie_data"
    and "map_of movie_data mid = Some data"
  shows "row_movie_id data = mid \<and> data \<in> set (movies_table db) \<and> mid \<in> set movie_ids"
proof (cases "movie_ids = []")
  case True
  with assms show ?thesis by (simp add: get_movies_by_ids_def)
next
  case False
  with assms(1) have d: "movie_data = dict_of (map (\<lambda>row. (row_movie_id row, row))
        (filter (\<lambda>row. row_movie_id row \<in> set movie_ids) (movies_table db)))"
    by (simp add: get_movies_by_ids_def split: if_splits)
  from assms(2) have "(mid, data) \<in> set (rev (map (\<lambda>row. (row_movie_id row, row))
        (filter (\<lambda>row. row_movie_id row \<in> set movie_ids) (movies_table db))))"
    unfolding d map_of_dict_of by (rule map_of_SomeD)
  then show ?thesis by auto
qed

lemma movie_data_dom:
  assumes "get_movies_by_ids db movie_ids = Inr movie_data" and "mid \<in> set movie_ids"
  shows "map_of movie_data mid \<noteq> None
         \<longleftrightarrow> (\<exists>row \<in> set (movies_table db). row_movie_id row = mid)"
proof -
  from assms have d: "movie_data = dict_of (map (\<lambda>row. (row_movie_id row, row))
        (filter (\<lambda>row. row_movie_id row \<in> set movie_ids) (movies_table db)))"
    by (auto simp: get_movies_by_ids_def split: if_splits)
  have "map_of movie_data mid \<noteq> None \<longleftrightarrow> mid \<in> dom (map_of movie_data)"
    by auto
  also have "\<dots> \<longleftrightarrow> mid \<in> fst ` set movie_data"
    by (simp add: dom_map_of_conv_image_fst)
  also have "\<dots> \<longleftrightarrow> (\<exists>row \<in> set (movies_table db). row_movie_id row = mid)"
    unfolding d dom_dict_of using assms(2) by force
  finally show ?thesis .
qed

lemma get_movies_by_ids_returns:
  "movie_ids = [] \<or> available db \<Longrightarrow> \<exists>movie_data. get_movies_by_ids db movie_ids = Inr movie_data"
  by (auto simp: get_movies_by_ids_def)

lemma enrich_movies_ids:
  assumes "enrich_movies svc movie_ids scores = Inr movies"
  shows "map mv_id movies = filter (has_record svc) movie_ids"
    and "map mv_score movies
         = map (\<lambda>mid. case map_of scores mid of None \<Rightarrow> 0 | Some sc \<Rightarrow> sc)
               (filter (has_record svc) movie_ids)"
proof -
  from assms obtain movie_data where
    md: "get_movies_by_ids (movie_repo svc) movie_ids = Inr movie_data"
    by (auto simp: enrich_movies_def split: sum.splits)
  define g where "g = (\<lambda>mid. case map_of movie_data mid of
                    None \<Rightarrow> None
                  | Some data \<Rightarrow>
                      Some \<lparr>mv_id = row_movie_id data, mv_title = row_title data,
                            mv_genres = row_genres data, mv_poster_url = row_poster_url data,
                            mv_score = (case map_of scores mid of None \<Rightarrow> 0 | Some sc \<Rightarrow> sc)\<rparr>)"
  from assms md have movies: "movies = List.map_filter g movie_ids"
    by (simp add: enrich_movies_def g_def)
  have keep: "filter (\<lambda>mid. g mid \<noteq> None) movie_ids = filter (has_record svc) movie_ids"
  proof (rule filter_cong[OF refl])
    fix mid assume "mid \<in> set movie_ids"
    from movie_data_dom[OF md this] show "(g mid \<noteq> None) = has_record svc mid"
      by (auto simp: has_record_def g_def split: option.splits)
  qed
  have id_eq: "mv_id (the (g mid)) = mid" if "g mid \<noteq> None" for mid
    using that movie_data_Some[OF md] by (auto simp: g_def split: option.splits)
  have sc_eq: "mv_score (the (g mid)) = (case map_of scores mid of None \<Rightarrow> 0 | Some sc \<Rightarrow> sc)"
    if "g mid \<noteq> None" for mid
    using that by (auto simp: g_def split: option.splits)
  have "map mv_id movies = map (\<lambda>mid. mv_id (the (g mid))) (filter (\<lambda>mid. g mid \<noteq> None) movie_ids)"
    unfolding movies map_filter_def by (simp only: map_map comp_def)
  also have "\<dots> = map (\<lambda>mid. mid) (filter (\<lambda>mid. g mid \<noteq> None) movie_ids)"
    by (rule map_cong[OF refl]) (simp add: id_eq)
  finally show "map mv_id movies = filter (has_record svc) movie_ids"
    unfolding keep by simp
  have "map mv_score movies
        = map (\<lambda>mid. mv_score (the (g mid))) (filter (\<lambda>mid. g mid \<noteq> None) movie_ids)"
    unfolding movies map_filter_def by (simp only: map_map comp_def)
  also have "\<dots> = map (\<lambda>mid. case map_of scores mid of None \<Rightarrow> 0 | Some sc \<Rightarrow> sc)
                       (filter (\<lambda>mid. g mid \<noteq> None) movie_ids)"
    by (rule map_cong[OF refl]) (simp add: sc_eq)
  finally show "map mv_score movies
         = map (\<lambda>mid. case map_of scores mid of None \<Rightarrow> 0 | Some sc \<Rightarrow> sc)
               (filter (has_record svc) movie_ids)"
    unfolding keep .
qed

lemma enrich_movies_returns:
  "movie_ids = [] \<or> available (movie_repo svc) \<Longrightarrow>
   \<exists>movies. enrich_movies svc movie_ids scores = Inr movies"
  using get_movies_by_ids_returns[of movie_ids "movie_repo svc"]
  by (auto simp: enrich_movies_def)


text \<open>
  C6. Enrichment returns, for the IDs in the order given, a movie for each ID that has a
  record in the metadata store, and nothing for the others: the IDs of the output are the
  input IDs filtered by having a record, in the same order (an ID given twice comes out
  twice), and each movie carries the score that the mapping has for its ID (0 when the
  mapping has none). The store is not asked when the list is empty; otherwise the
  statement is for a store that answers.
\<close>

theorem C6_enrich_keeps_order:
  assumes "movie_ids = [] \<or> available (movie_repo svc)"
  shows "\<exists>movies. enrich_movies svc movie_ids scores = Inr movies
           \<and> map mv_id movies = filter (has_record svc) movie_ids
           \<and> map mv_score movies
               = map (\<lambda>mid. case map_of scores mid of None \<Rightarrow> 0 | Some sc \<Rightarrow> sc)
                     (filter (has_record svc) movie_ids)"
proof -
  from enrich_movies_returns[OF assms] obtain movies
    where "enrich_movies svc movie_ids scores = Inr movies" by blast
  with enrich_movies_ids[OF this] show ?thesis by blast
qed

lemma test_has_record:
  "has_record test_service 1" "has_record test_service 2" "has_record test_service 3"
  "\<not> has_record test_service 4"
  by (simp_all add: has_record_def test_service_def test_db_def test_movies_table_def)

text \<open>
  The example of the claim and of \<open>tests/test_service.py\<close>: the store has movies 1, 2
  and 3; the IDs \<open>[3, 1, 2]\<close> with scores 0.9, 0.8, 0.7 come out in this order with these
  scores, and of \<open>[3, 4, 1]\<close> the ID 4, which has no record, is left out.
\<close>

theorem C6_enrich_keeps_order_witness:
  "available (movie_repo test_service)
   \<and> (\<exists>movies. enrich_movies test_service [3, 1, 2] (dict_of [(3, 9/10), (1, 8/10), (2, 7/10)])
                  = Inr movies
        \<and> map mv_id movies = [3, 1, 2] \<and> map mv_score movies = [9/10, 8/10, 7/10])
   \<and> (\<exists>movies. enrich_movies test_service [3, 4, 1] (dict_of [(3, 9/10), (1, 8/10), (2, 7/10)])
                  = Inr movies
        \<and> map mv_id movies = [3, 1] \<and> map mv_score movies = [9/10, 8/10])"
proof -
  have av: "available (movie_repo test_service)"
    by (simp add: test_service_def test_db_def)
  then have h1: "[3, 1, 2] = [] \<or> available (movie_repo test_service)"
    and h2: "[3, 4, 1] = [] \<or> available (movie_repo test_service)" by simp_all
  from C6_enrich_keeps_order[OF h1, of "dict_of [(3, 9/10), (1, 8/10), (2, 7/10)]"]
       C6_enrich_keeps_order[OF h2, of "dict_of [(3, 9/10), (1, 8/10), (2, 7/10)]"] av
  show ?thesis
    by (simp add: map_of_dict_of test_has_record)
qed

subsection \<open>Genre re-ranking\<close>

lemma sort_reverse_mset: "mset (sort_reverse key xs) = mset xs"
  by (simp add: sort_reverse_def)

lemma sort_reverse_sorted: "sorted_wrt (\<lambda>a b. key b \<le> key a) (sort_reverse key xs)"
proof -
  have "sorted (map key (sort_key key (rev xs)))"
    by (rule sorted_sort_key)
  then have "sorted_wrt (\<lambda>a b. key a \<le> key b) (sort_key key (rev xs))"
    by (simp add: sorted_map)
  then show ?thesis
    by (simp add: sort_reverse_def sorted_wrt_rev)
qed

lemma union_positive: "target_genres \<noteq> [] \<Longrightarrow> 0 < union m target_genres"
  by (cases target_genres) (simp_all add: union_def target_set_def movie_genres_def parse_genres_def card_gt_0_iff)

lemma rank_mset:
  assumes "target_genres \<noteq> []"
  shows "mset (rank_by_genre_similarity movies target_genres)
         = mset (filter (\<lambda>m. 0 < intersection m target_genres) movies)"
proof -
  define T where "T = map (\<lambda>m. (m, jaccard_score m target_genres, mv_score m))
                          (filter (\<lambda>m. 0 < intersection m target_genres) movies)"
  have "mset (map fst (sort_reverse snd T)) = image_mset fst (mset T)"
    by (simp add: sort_reverse_mset)
  also have "\<dots> = mset (map fst T)"
    by simp
  also have "map fst T = filter (\<lambda>m. 0 < intersection m target_genres) movies"
    by (simp add: T_def comp_def)
  finally show ?thesis
    using assms by (simp add: rank_by_genre_similarity_def T_def)
qed

lemma rank_sorted:
  assumes "target_genres \<noteq> []"
  shows "sorted_wrt (\<lambda>a b. jaccard_score b target_genres < jaccard_score a target_genres
                          \<or> (jaccard_score b target_genres = jaccard_score a target_genres
                              \<and> mv_score b \<le> mv_score a))
                    (rank_by_genre_similarity movies target_genres)"
proof -
  define T where "T = map (\<lambda>m. (m, jaccard_score m target_genres, mv_score m))
                          (filter (\<lambda>m. 0 < intersection m target_genres) movies)"
  have shape: "snd t = (jaccard_score (fst t) target_genres, mv_score (fst t))"
    if "t \<in> set (sort_reverse snd T)" for t
  proof -
    from that have "t \<in> set T"
      using sort_reverse_mset[of snd T] by (metis set_mset_mset)
    then show ?thesis by (auto simp: T_def)
  qed
  have "sorted_wrt (\<lambda>a b. snd b \<le> snd a) (sort_reverse snd T)"
    by (rule sort_reverse_sorted)
  then have "sorted_wrt (\<lambda>a b. jaccard_score (fst b) target_genres < jaccard_score (fst a) target_genres
                          \<or> (jaccard_score (fst b) target_genres = jaccard_score (fst a) target_genres
                              \<and> mv_score (fst b) \<le> mv_score (fst a)))
                    (sort_reverse snd T)"
  proof (rule sorted_wrt_mono_rel[rotated])
    fix a b assume "a \<in> set (sort_reverse snd T)" "b \<in> set (sort_reverse snd T)"
      and "snd b \<le> snd a"
    then show "jaccard_score (fst b) target_genres < jaccard_score (fst a) target_genres
               \<or> (jaccard_score (fst b) target_genres = jaccard_score (fst a) target_genres
                   \<and> mv_score (fst b) \<le> mv_score (fst a))"
      using shape[of a] shape[of b] by (auto simp: less_eq_prod_def)
  qed
  then show ?thesis
    using assms by (simp add: rank_by_genre_similarity_def T_def sorted_wrt_map)
qed

lemma example_genre_sets:
  "parse_genres ''Action|Drama'' = {''action'', ''drama''}"
  "parse_genres ''ACTION | drama'' = {''action'', ''drama''}"
  "parse_genres ''Comedy'' = {''comedy''}"
  "target_set [''Action'', ''Sci-Fi''] = {''action'', ''sci-fi''}"
  "target_set [''action'', ''SCI-FI''] = {''action'', ''sci-fi''}"
  by code_simp+

lemma example_jaccard:
  "jaccard_score (m\<lparr>mv_genres := ''Action|Drama''\<rparr>) [''Action'', ''Sci-Fi''] = 1 / 3"
  "jaccard_score (m\<lparr>mv_genres := ''ACTION | drama''\<rparr>) [''action'', ''SCI-FI''] = 1 / 3"
  "intersection (m\<lparr>mv_genres := ''Comedy''\<rparr>) [''Action'', ''Sci-Fi''] = 0"
  unfolding jaccard_score_def intersection_def union_def movie_genres_def
  by (simp_all add: example_genre_sets card_insert_if)

subsection \<open>The branches of the cold start\<close>

lemma py_take_nonneg: "0 \<le> k \<Longrightarrow> py_take k xs = take (nat k) xs"
  by (simp add: py_take_def)

lemma get_vectors_by_ids_Nil: "get_vectors_by_ids q [] = Inr []"
  by (simp add: get_vectors_by_ids_def)

lemma cold_start_vector_branch:
  assumes "get_vectors_by_ids (vector_repo svc) ids = Inr (v # vs)"
    and "np_mean_axis0 v vs = Inr tv"
    and "search_similar (vector_repo svc) tv (top_k * 2) = Inr results"
    and "enrich_movies svc (map movie_id (filter (\<lambda>r. movie_id r \<notin> set ids) results))
           (dict_of (map (\<lambda>r. (movie_id r, score r)) results)) = Inr enriched"
  shows "cold_start_from svc rt ids genres kws top_k
         = Inr (py_take top_k
                  (case genres of
                     None \<Rightarrow> enriched
                   | Some gs \<Rightarrow> if gs = [] then enriched
                               else rank_by_genre_similarity enriched gs))"
proof -
  from assms(1) have "ids \<noteq> []"
    by (auto simp: get_vectors_by_ids_Nil)
  with assms show ?thesis
    by (simp add: cold_start_from_def Let_def)
qed

lemma demo_vector_branch:
  "get_vectors_by_ids (vector_repo demo_service) [1] = Inr [[1, 0]]"
  "np_mean_axis0 [1, 0] [] = Inr [1, 0]"
  "search_similar (vector_repo demo_service) [1, 0] (2 * 2)
   = Inr [\<lparr>movie_id = 10, score = 9/10\<rparr>, \<lparr>movie_id = 11, score = 8/10\<rparr>,
          \<lparr>movie_id = 12, score = 7/10\<rparr>, \<lparr>movie_id = 1, score = 6/10\<rparr>]"
  "enrich_movies demo_service
     (map movie_id (filter (\<lambda>r. movie_id r \<notin> set [1])
        [\<lparr>movie_id = 10, score = 9/10\<rparr>, \<lparr>movie_id = 11, score = 8/10\<rparr>,
         \<lparr>movie_id = 12, score = 7/10\<rparr>, \<lparr>movie_id = 1, score = 6/10\<rparr>]))
     (dict_of (map (\<lambda>r. (movie_id r, score r))
        [\<lparr>movie_id = 10, score = 9/10\<rparr>, \<lparr>movie_id = 11, score = 8/10\<rparr>,
         \<lparr>movie_id = 12, score = 7/10\<rparr>, \<lparr>movie_id = 1, score = 6/10\<rparr>]))
   = Inr demo_enriched"
  by code_simp+

lemma demo_ranked:
  "rank_by_genre_similarity demo_enriched [''Action'', ''Sci-Fi'']
   = [demo_movie 12 ''Twelve'' ''Action|Sci-Fi'' (7/10), demo_movie 10 ''Ten'' ''Action|Drama'' (9/10)]"
  by code_simp

text \<open>
  C3. For a non-empty list of target genres, \<open>_rank_by_genre_similarity\<close> (1) keeps
  exactly the candidates whose genre set, parsed from the pipe-delimited string and
  lower-cased, meets the lower-cased target set; (2) returns them in descending order of
  the Jaccard score, and of the vector score among equal Jaccard scores; (3) the Jaccard
  score is the size of the intersection over the size of the union of the two sets.
  (4) Target \<open>Action, Sci-Fi\<close>: a candidate with genres \<open>Action|Drama\<close> scores 1/3, also
  when the cases of the letters differ, and a candidate with genres \<open>Comedy\<close> has an empty
  intersection. (5) In the vector branch of \<open>recommend_cold_start\<close> the re-ranked list is
  cut by \<open>[:top_k]\<close>, which for a bound that is not negative is its first \<open>top_k\<close>
  elements.
\<close>

theorem C3_genre_rerank:
  assumes "target_genres \<noteq> []"
  shows "mset (rank_by_genre_similarity movies target_genres)
           = mset (filter (\<lambda>m. 0 < card (movie_genres m \<inter> target_set target_genres)) movies)
         \<and> sorted_wrt (\<lambda>a b. jaccard_score b target_genres < jaccard_score a target_genres
                              \<or> (jaccard_score b target_genres = jaccard_score a target_genres
                                  \<and> mv_score b \<le> mv_score a))
                        (rank_by_genre_similarity movies target_genres)
         \<and> jaccard_score m target_genres
             = of_nat (card (movie_genres m \<inter> target_set target_genres))
               / of_nat (card (movie_genres m \<union> target_set target_genres))
         \<and> jaccard_score (m\<lparr>mv_genres := ''Action|Drama''\<rparr>) [''Action'', ''Sci-Fi''] = 1 / 3
         \<and> jaccard_score (m\<lparr>mv_genres := ''ACTION | drama''\<rparr>) [''action'', ''SCI-FI''] = 1 / 3
         \<and> card (movie_genres (m\<lparr>mv_genres := ''Comedy''\<rparr>) \<inter> target_set [''Action'', ''Sci-Fi'']) = 0
         \<and> (get_vectors_by_ids (vector_repo svc) ids = Inr (v # vs)
              \<and> np_mean_axis0 v vs = Inr tv
              \<and> search_similar (vector_repo svc) tv (top_k * 2) = Inr results
              \<and> enrich_movies svc (map movie_id (filter (\<lambda>r. movie_id r \<notin> set ids) results))
                    (dict_of (map (\<lambda>r. (movie_id r, score r)) results)) = Inr enriched
              \<longrightarrow> cold_start_from svc rt ids (Some target_genres) kws top_k
                    = Inr (py_take top_k (rank_by_genre_similarity enriched target_genres)))
         \<and> (0 \<le> top_k \<longrightarrow>
              py_take top_k (rank_by_genre_similarity enriched target_genres)
              = take (nat top_k) (rank_by_genre_similarity enriched target_genres))"
proof -
  have kept: "mset (rank_by_genre_similarity movies target_genres)
           = mset (filter (\<lambda>m. 0 < card (movie_genres m \<inter> target_set target_genres)) movies)"
    using rank_mset[OF assms, of movies] by (simp add: intersection_def)
  have score: "jaccard_score m target_genres
             = of_nat (card (movie_genres m \<inter> target_set target_genres))
               / of_nat (card (movie_genres m \<union> target_set target_genres))"
    using union_positive[OF assms, of m]
    by (simp add: jaccard_score_def intersection_def union_def)
  have comedy: "card (movie_genres (m\<lparr>mv_genres := ''Comedy''\<rparr>) \<inter> target_set [''Action'', ''Sci-Fi'']) = 0"
    using example_jaccard(3)[of m] by (simp add: intersection_def)
  have cut: "cold_start_from svc rt ids (Some target_genres) kws top_k
             = Inr (py_take top_k (rank_by_genre_similarity enriched target_genres))"
    if "get_vectors_by_ids (vector_repo svc) ids = Inr (v # vs)"
      and "np_mean_axis0 v vs = Inr tv"
      and "search_similar (vector_repo svc) tv (top_k * 2) = Inr results"
      and "enrich_movies svc (map movie_id (filter (\<lambda>r. movie_id r \<notin> set ids) results))
             (dict_of (map (\<lambda>r. (movie_id r, score r)) results)) = Inr enriched"
    using cold_start_vector_branch[OF that, of rt "Some target_genres" kws] assms by simp
  from kept rank_sorted[OF assms, of movies] score example_jaccard(1)[of m]
    example_jaccard(2)[of m] comedy cut py_take_nonneg
  show ?thesis by blast
qed

text \<open>
  Seed 1 with target genres \<open>Action, Sci-Fi\<close> and \<open>top_k = 2\<close> on the demo store: of the
  candidates 10 (\<open>Action|Drama\<close>, 0.9), 11 (\<open>Comedy\<close>, 0.8) and 12 (\<open>Action|Sci-Fi\<close>,
  0.7), movie 12 (Jaccard 1) comes before movie 10 (Jaccard 1/3) and movie 11 is dropped.
\<close>

theorem C3_genre_rerank_witness:
  "[''Action'', ''Sci-Fi''] \<noteq> []
   \<and> get_vectors_by_ids (vector_repo demo_service) [1] = Inr [[1, 0]]
   \<and> cold_start_from demo_service demo_runtime [1] (Some [''Action'', ''Sci-Fi'']) None 2
       = Inr [demo_movie 12 ''Twelve'' ''Action|Sci-Fi'' (7/10),
              demo_movie 10 ''Ten'' ''Action|Drama'' (9/10)]
   \<and> jaccard_score (demo_movie 12 ''Twelve'' ''Action|Sci-Fi'' (7/10)) [''Action'', ''Sci-Fi''] = 1
   \<and> jaccard_score (demo_movie 10 ''Ten'' ''Action|Drama'' (9/10)) [''Action'', ''Sci-Fi''] = 1 / 3"
proof -
  have ne: "[''Action'', ''Sci-Fi''] \<noteq> []" by simp
  note T = C3_genre_rerank[OF ne, where svc=demo_service and ids="[1]" and v="[1, 0]"
      and vs="[]" and tv="[1, 0]" and top_k=2 and enriched=demo_enriched
      and rt=demo_runtime and kws=None
      and results="[\<lparr>movie_id = 10, score = 9/10\<rparr>, \<lparr>movie_id = 11, score = 8/10\<rparr>,
                    \<lparr>movie_id = 12, score = 7/10\<rparr>, \<lparr>movie_id = 1, score = 6/10\<rparr>]"]
  have "cold_start_from demo_service demo_runtime [1] (Some [''Action'', ''Sci-Fi'']) None 2
        = Inr (take 2 (rank_by_genre_similarity demo_enriched [''Action'', ''Sci-Fi'']))"
    using T demo_vector_branch by simp
  moreover have "jaccard_score (demo_movie 12 ''Twelve'' ''Action|Sci-Fi'' (7/10)) [''Action'', ''Sci-Fi''] = 1"
    "jaccard_score (demo_movie 10 ''Ten'' ''Action|Drama'' (9/10)) [''Action'', ''Sci-Fi''] = 1 / 3"
    by code_simp+
  ultimately show ?thesis
    using demo_vector_branch(1) by (simp add: demo_ranked)
qed

subsection \<open>Seeds and the caller's list\<close>

lemma rank_subset: "set (rank_by_genre_similarity movies gs) \<subseteq> set movies"
proof (cases "gs = []")
  case True
  then show ?thesis by (simp add: rank_by_genre_similarity_def)
next
  case False
  from rank_mset[OF this, of movies]
  have "set (rank_by_genre_similarity movies gs)
        = set (filter (\<lambda>m. 0 < intersection m gs) movies)"
    by (rule mset_eq_setD)
  then show ?thesis by auto
qed

lemma py_take_subset: "set (py_take k xs) \<subseteq> set xs"
  by (auto simp: py_take_def dest: in_set_takeD)

lemma vector_branch_result:
  assumes "cold_start_from svc rt ids genres kws top_k = Inr movies"
    and "get_vectors_by_ids (vector_repo svc) ids = Inr (v # vs)"
  obtains tv results enriched where
    "np_mean_axis0 v vs = Inr tv"
    "search_similar (vector_repo svc) tv (top_k * 2) = Inr results"
    "enrich_movies svc (map movie_id (filter (\<lambda>r. movie_id r \<notin> set ids) results))
           (dict_of (map (\<lambda>r. (movie_id r, score r)) results)) = Inr enriched"
    "movies = py_take top_k
                  (case genres of
                     None \<Rightarrow> enriched
                   | Some gs \<Rightarrow> if gs = [] then enriched
                               else rank_by_genre_similarity enriched gs)"
proof -
  from assms(2) have ne: "ids \<noteq> []"
    by (auto simp: get_vectors_by_ids_Nil)
  from assms ne obtain tv where tv: "np_mean_axis0 v vs = Inr tv"
    by (auto simp: cold_start_from_def split: sum.splits)
  from assms ne tv obtain results
    where rs: "search_similar (vector_repo svc) tv (top_k * 2) = Inr results"
    by (auto simp: cold_start_from_def split: sum.splits)
  from assms ne tv rs obtain enriched
    where en: "enrich_movies svc (map movie_id (filter (\<lambda>r. movie_id r \<notin> set ids) results))
           (dict_of (map (\<lambda>r. (movie_id r, score r)) results)) = Inr enriched"
    by (auto simp: cold_start_from_def Let_def split: sum.splits)
  from assms(1) cold_start_vector_branch[OF assms(2) tv rs en, of rt genres kws]
  have "movies = py_take top_k
                  (case genres of
                     None \<Rightarrow> enriched
                   | Some gs \<Rightarrow> if gs = [] then enriched
                               else rank_by_genre_similarity enriched gs)"
    by simp
  with tv rs en show thesis by (rule that)
qed

lemma cut_ranked_subset:
  "set (py_take top_k (case genres of
                     None \<Rightarrow> enriched
                   | Some gs \<Rightarrow> if gs = [] then enriched
                               else rank_by_genre_similarity enriched gs)) \<subseteq> set enriched"
proof -
  have "set (case genres of
               None \<Rightarrow> enriched
             | Some gs \<Rightarrow> if gs = [] then enriched
                         else rank_by_genre_similarity enriched gs) \<subseteq> set enriched"
    using rank_subset[of enriched] by (auto split: option.splits)
  with py_take_subset show ?thesis by (rule order_trans)
qed

text \<open>
  The vector branch filters the seeds: when \<open>recommend_cold_start\<close> returns from it,
  that is, when the index has a vector for some seed, no movie of the result has the ID of
  a seed, the seeds being the contents of \<open>selected_movie_ids\<close> after the text search has
  added what it found to the IDs the caller selected.
\<close>

lemma vector_branch_excludes_seeds:
  assumes "recommend_cold_start svc rt h selected_movie_ids genres kws query search_svc top_k
           = (h', Inr movies)"
    and "seeds = snd (neural_search h selected_movie_ids query search_svc)"
    and "get_vectors_by_ids (vector_repo svc) seeds = Inr (v # vs)"
  shows "seeds \<noteq> [] \<and> (\<forall>m \<in> set movies. mv_id m \<notin> set seeds)"
proof -
  from assms(3) have ne: "seeds \<noteq> []"
    by (auto simp: get_vectors_by_ids_Nil)
  from assms(1,2) have run: "cold_start_from svc rt seeds
        (map_option (str_lists h') genres) (map_option (str_lists h') kws) top_k = Inr movies"
    by (auto simp: recommend_cold_start_def split: prod.splits)
  from run assms(3) obtain tv results enriched where
    "np_mean_axis0 v vs = Inr tv"
    "search_similar (vector_repo svc) tv (top_k * 2) = Inr results"
    and en: "enrich_movies svc (map movie_id (filter (\<lambda>r. movie_id r \<notin> set seeds) results))
           (dict_of (map (\<lambda>r. (movie_id r, score r)) results)) = Inr enriched"
    and mv: "movies = py_take top_k
                  (case map_option (str_lists h') genres of
                     None \<Rightarrow> enriched
                   | Some gs \<Rightarrow> if gs = [] then enriched
                               else rank_by_genre_similarity enriched gs)"
    by (rule vector_branch_result)
  have "mv_id m \<notin> set seeds" if "m \<in> set movies" for m
  proof -
    from that mv cut_ranked_subset have "m \<in> set enriched" by blast
    then have "mv_id m \<in> set (map mv_id enriched)" by simp
    then show ?thesis
      unfolding enrich_movies_ids(1)[OF en] by auto
  qed
  with ne show ?thesis by blast
qed

lemma demo_neural_search:
  "neural_search demo_heap (Some 0) (Some ''space'') (Some demo_search)
   = (demo_heap\<lparr>int_lists := (int_lists demo_heap)(0 := [1, 12])\<rparr>, [1, 12])"
  by (simp add: neural_search_def search_def demo_search_def demo_heap_def)

lemma demo_seeds_vectors:
  "get_vectors_by_ids (vector_repo demo_service) [1, 12] = Inr [[1, 0]]"
  by code_simp

lemma demo_cold_start_seeds:
  "cold_start_from demo_service demo_runtime [1, 12] None None 2
   = Inr [demo_movie 10 ''Ten'' ''Action|Drama'' (9/10), demo_movie 11 ''Eleven'' ''Comedy'' (8/10)]"
  by code_simp

text \<open>
  The caller selected movie 1 and the text search adds movie 12: the index returns 10, 11,
  12 and 1 for \<open>top_k = 2\<close>, and the result is 10 and 11.
\<close>

lemma vector_branch_excludes_seeds_example:
  "recommend_cold_start demo_service demo_runtime demo_heap (Some 0) None None (Some ''space'')
       (Some demo_search) 2
     = (demo_heap\<lparr>int_lists := (int_lists demo_heap)(0 := [1, 12])\<rparr>,
        Inr [demo_movie 10 ''Ten'' ''Action|Drama'' (9/10), demo_movie 11 ''Eleven'' ''Comedy'' (8/10)])
   \<and> snd (neural_search demo_heap (Some 0) (Some ''space'') (Some demo_search)) = [1, 12]
   \<and> get_vectors_by_ids (vector_repo demo_service) [1, 12] = Inr [[1, 0]]
   \<and> set (map mv_id [demo_movie 10 ''Ten'' ''Action|Drama'' (9/10),
                        demo_movie 11 ''Eleven'' ''Comedy'' (8/10)]) \<inter> set [1, 12] = {}"
proof -
  have run: "recommend_cold_start demo_service demo_runtime demo_heap (Some 0) None None
       (Some ''space'') (Some demo_search) 2
     = (demo_heap\<lparr>int_lists := (int_lists demo_heap)(0 := [1, 12])\<rparr>,
        Inr [demo_movie 10 ''Ten'' ''Action|Drama'' (9/10), demo_movie 11 ''Eleven'' ''Comedy'' (8/10)])"
    by (simp add: recommend_cold_start_def demo_neural_search demo_cold_start_seeds)
  have seeds: "[1, 12] = snd (neural_search demo_heap (Some 0) (Some ''space'') (Some demo_search))"
    by (simp add: demo_neural_search)
  from vector_branch_excludes_seeds[OF run seeds demo_seeds_vectors] run seeds demo_seeds_vectors
  show ?thesis by auto
qed



subsection \<open>The centroid\<close>

lemma fold_add_rows:
  assumes "\<forall>w \<in> set vs. length w = length v"
  shows "length (fold (\<lambda>w acc. map2 (+) acc w) vs v) = length v
         \<and> (\<forall>j < length v. fold (\<lambda>w acc. map2 (+) acc w) vs v ! j
                               = v ! j + sum_list (map (\<lambda>w. w ! j) vs))"
  using assms
proof (induction vs arbitrary: v)
  case Nil
  then show ?case by simp
next
  case (Cons u vs)
  let ?v' = "map2 (+) v u"
  from Cons.prems have len: "length ?v' = length v" and u: "length u = length v"
    by simp_all
  from Cons.prems len have "\<forall>w \<in> set vs. length w = length ?v'"
    by simp
  from Cons.IH[OF this] len u show ?case
    by (simp add: add.assoc)
qed

lemma np_mean_axis0_mean:
  assumes "\<forall>w \<in> set (v # vs). length w = n"
  shows "np_mean_axis0 v vs
         = Inr (map (\<lambda>j. sum_list (map (\<lambda>w. w ! j) (v # vs)) / of_nat (length (v # vs))) [0..<n])"
proof -
  from assms have same: "\<forall>w \<in> set vs. length w = length v" and n: "length v = n"
    by simp_all
  from fold_add_rows[OF same] n
  have "map (\<lambda>x. x / of_nat (length (v # vs))) (fold (\<lambda>w acc. map2 (+) acc w) vs v)
        = map (\<lambda>j. sum_list (map (\<lambda>w. w ! j) (v # vs)) / of_nat (length (v # vs))) [0..<n]"
    by (intro nth_equalityI) simp_all
  with same show ?thesis
    by (simp add: np_mean_axis0_def)
qed

text \<open>
  C9. \<open>compute_centroid\<close> returns the componentwise arithmetic mean: for vectors of one
  length \<open>n\<close>, component \<open>j\<close> of the result is the sum of the components \<open>j\<close> over the
  number of vectors. The centroid of a single vector is that vector, and the centroid of
  \<open>[[1,2,3],[4,5,6],[7,8,9]]\<close> is \<open>[4,5,6]\<close>. (Components are rationals here; in both
  examples every intermediate value is a small integer, which floating point represents
  exactly.)
\<close>

theorem C9_centroid_is_mean:
  "(vectors \<noteq> [] \<and> (\<forall>w \<in> set vectors. length w = n) \<longrightarrow>
      compute_centroid vectors
      = Inr (map (\<lambda>j. sum_list (map (\<lambda>w. w ! j) vectors) / of_nat (length vectors)) [0..<n]))
   \<and> compute_centroid [v] = Inr v
   \<and> compute_centroid [[1, 2, 3], [4, 5, 6], [7, 8, 9]] = Inr [4, 5, 6]"
proof -
  have mean: "compute_centroid vectors
      = Inr (map (\<lambda>j. sum_list (map (\<lambda>w. w ! j) vectors) / of_nat (length vectors)) [0..<n])"
    if "vectors \<noteq> []" "\<forall>w \<in> set vectors. length w = n"
  proof (cases vectors)
    case Nil
    with that show ?thesis by simp
  next
    case (Cons u us)
    with that(2) np_mean_axis0_mean[of u us n] show ?thesis
      by (simp add: compute_centroid_def)
  qed
  have single: "compute_centroid [v] = Inr v"
    by (simp add: compute_centroid_def np_mean_axis0_def)
  have "compute_centroid [[1, 2, 3], [4, 5, 6], [7, 8, 9]] = Inr [4, 5, 6]"
    by (simp add: compute_centroid_def np_mean_axis0_def)
  with mean single show ?thesis by blast
qed

theorem C9_centroid_is_mean_witness:
  "compute_centroid [[1, 2, 3], [4, 5, 6], [7, 8, 9]]
     = Inr [(1 + 4 + 7) / 3, (2 + 5 + 8) / 3, (3 + 6 + 9) / 3]
   \<and> compute_centroid [[1/2, -3]] = Inr [1/2, -3]"
proof -
  have "[0..<3] = [0, 1, 2]"
    by (simp add: upt_rec)
  with C9_centroid_is_mean[of "[[1, 2, 3], [4, 5, 6], [7, 8, 9]]" 3 "[1/2, -3]"]
  show ?thesis by simp
qed

subsection \<open>The known-user strategy\<close>

lemma cold_start_no_signal [simp]:
  "recommend_cold_start svc rt h None None None None None top_k = (h, Inr [])"
  by (simp add: recommend_cold_start_def neural_search_def cold_start_from_def)

lemma enrich_movies_Nil [simp]: "enrich_movies svc [] scores = Inr []"
  by (simp add: enrich_movies_def get_movies_by_ids_def map_filter_simps)

lemma fell_back_iff:
  "fell_back user_id (snd (recommend_for_user_body svc rt h user_id top_k ab_group []))
   \<longleftrightarrow> get_user_vector svc user_id = Inr None"
  by (auto simp: fell_back_def recommend_for_user_body_def try_recommend_for_user_def Let_def
           split: sum.splits option.splits prod.splits if_splits)

lemma empty_or_failed_index:
  assumes "get_user_vector svc user_id = Inr (Some user_vector)"
    and "search_similar (vector_repo svc) user_vector
           (if ab_group = ''treatment'' then top_k * 2 else top_k) = Inr []
         \<or> (\<exists>e. search_similar (vector_repo svc) user_vector
                   (if ab_group = ''treatment'' then top_k * 2 else top_k) = Inl e)"
  shows "fst (recommend_for_user_body svc rt h user_id top_k ab_group []) = []"
  using assms
  by (auto simp: recommend_for_user_body_def try_recommend_for_user_def Let_def random_sample_def
           split: sum.splits option.splits prod.splits if_splits)

text \<open>
  C2, as the code has it. For a user whose embedding vector is present, an index query
  that returns no candidate or that raises makes \<open>recommend_for_user\<close> return the empty
  list, and the cold-start fallback is not taken. The fallback is taken exactly when
  \<open>get_user_vector\<close> returns \<open>None\<close>.
\<close>

theorem C2_fallback_only_without_vector:
  "(get_user_vector svc user_id = Inr (Some user_vector)
      \<and> (search_similar (vector_repo svc) user_vector
            (if ab_group = ''treatment'' then top_k * 2 else top_k) = Inr []
          \<or> (\<exists>e. search_similar (vector_repo svc) user_vector
                    (if ab_group = ''treatment'' then top_k * 2 else top_k) = Inl e))
    \<longrightarrow> fst (recommend_for_user_body svc rt h user_id top_k ab_group []) = []
        \<and> \<not> fell_back user_id (snd (recommend_for_user_body svc rt h user_id top_k ab_group [])))
   \<and> (fell_back user_id (snd (recommend_for_user_body svc rt h user_id top_k ab_group []))
        \<longleftrightarrow> get_user_vector svc user_id = Inr None)"
  using empty_or_failed_index[of svc user_id user_vector ab_group top_k rt h]
    fell_back_iff[of user_id svc rt h top_k ab_group]
  by auto

lemma known_user_7:
  "get_user_vector quiet_service 7 = Inr (Some [1, 0])"
  "get_user_vector broken_service 7 = Inr (Some [1, 0])"
  "get_user_vector quiet_service 8 = Inr None"
  by code_simp+

lemma quiet_and_broken_index:
  "search_similar (vector_repo quiet_service) [1, 0] 10 = Inr []"
  "search_similar (vector_repo broken_service) [1, 0] 10
   = Inl (Exception ''ResponseHandlingException'')"
  by code_simp+

lemma str_int_7: "str_int 7 = ''7''" "str_int 8 = ''8''"
  by code_simp+

theorem C2_fallback_only_without_vector_witness:
  "fst (recommend_for_user_body quiet_service demo_runtime demo_heap 7 10 ''control'' []) = []
   \<and> \<not> fell_back 7 (snd (recommend_for_user_body quiet_service demo_runtime demo_heap 7 10
                             ''control'' []))
   \<and> fst (recommend_for_user_body broken_service demo_runtime demo_heap 7 10 ''control'' []) = []
   \<and> \<not> fell_back 7 (snd (recommend_for_user_body broken_service demo_runtime demo_heap 7 10
                             ''control'' []))
   \<and> fell_back 8 (snd (recommend_for_user_body quiet_service demo_runtime demo_heap 8 10
                           ''control'' []))"
  using C2_fallback_only_without_vector[of quiet_service 7 "[1, 0]" "''control''" 10
          demo_runtime demo_heap]
    C2_fallback_only_without_vector[of broken_service 7 "[1, 0]" "''control''" 10
          demo_runtime demo_heap]
    C2_fallback_only_without_vector[of quiet_service 8 "[1, 0]" "''control''" 10
          demo_runtime demo_heap]
  by (simp add: known_user_7 quiet_and_broken_index)

text \<open>
  C2 as claimed fails. User 7 has a vector and the index returns no candidate: the result
  is the empty list and the log stays empty, so no fallback was taken. With the index
  failing, the result is the empty list and the log holds the error alone.
\<close>

theorem C2_empty_index_counterexample:
  "get_user_vector quiet_service 7 = Inr (Some [1, 0])
   \<and> search_similar (vector_repo quiet_service) [1, 0] 10 = Inr []
   \<and> recommend_for_user_body quiet_service demo_runtime demo_heap 7 10 ''control'' [] = ([], [])
   \<and> \<not> fell_back 7 []
   \<and> get_user_vector broken_service 7 = Inr (Some [1, 0])
   \<and> search_similar (vector_repo broken_service) [1, 0] 10
       = Inl (Exception ''ResponseHandlingException'')
   \<and> recommend_for_user_body broken_service demo_runtime demo_heap 7 10 ''control'' []
       = ([], [Error ''Error generating recommendations for user 7''
                 (Exception ''ResponseHandlingException'')])
   \<and> \<not> fell_back 7 [Error ''Error generating recommendations for user 7''
                         (Exception ''ResponseHandlingException'')]"
  by (simp add: known_user_7 quiet_and_broken_index recommend_for_user_body_def
        try_recommend_for_user_def fell_back_def str_int_7)

subsection \<open>Length and duplicates of the results\<close>

lemma search_similar_bound:
  assumes "\<forall>v k r. query_points q v k = Inr r
                   \<longrightarrow> int (length r) \<le> k \<and> distinct (map payload_movie_id r)"
    and "search_similar q v k = Inr results"
  shows "int (length results) \<le> k \<and> distinct (map movie_id results)"
proof -
  from assms(2) obtain r where r: "query_points q v k = Inr r"
    and res: "results = map (\<lambda>pt. \<lparr>movie_id = payload_movie_id pt, score = point_score pt\<rparr>) r"
    by (auto simp: search_similar_def split: sum.splits)
  from assms(1) r have "int (length r) \<le> k \<and> distinct (map payload_movie_id r)"
    by blast
  then show ?thesis
    by (simp add: res comp_def)
qed

lemma enrich_movies_bound:
  assumes "enrich_movies svc movie_ids scores = Inr movies"
  shows "length movies \<le> length movie_ids"
    and "distinct movie_ids \<Longrightarrow> distinct (map mv_id movies)"
proof -
  have "length movies = length (map mv_id movies)" by simp
  also have "\<dots> \<le> length movie_ids"
    unfolding enrich_movies_ids(1)[OF assms] by (rule length_filter_le)
  finally show "length movies \<le> length movie_ids" .
  show "distinct (map mv_id movies)" if "distinct movie_ids"
    unfolding enrich_movies_ids(1)[OF assms] using that by (rule distinct_filter)
qed

lemma sample_from_length: "k \<le> length pool \<Longrightarrow> length (sample_from rs pool k) = k"
proof (induction k arbitrary: rs pool)
  case 0
  then show ?case by simp
next
  case (Suc k)
  then have ne: "pool \<noteq> []" by auto
  define i where "i = (case rs of [] \<Rightarrow> 0 | r # _ \<Rightarrow> r mod length pool)"
  from ne have i: "i < length pool"
    by (auto simp: i_def split: list.splits)
  with Suc.prems have "k \<le> length (take i pool @ drop (Suc i) pool)"
    by simp
  from Suc.IH[OF this] ne show ?case
    by (simp add: Let_def i_def)
qed

lemma sample_from_distinct:
  "distinct (map f pool) \<Longrightarrow>
   distinct (map f (sample_from rs pool k)) \<and> set (sample_from rs pool k) \<subseteq> set pool"
proof (induction k arbitrary: rs pool)
  case 0
  then show ?case by simp
next
  case (Suc k)
  show ?case
  proof (cases "pool = []")
    case True
    then show ?thesis by simp
  next
    case False
    define i where "i = (case rs of [] \<Rightarrow> 0 | r # _ \<Rightarrow> r mod length pool)"
    define rest where "rest = take i pool @ drop (Suc i) pool"
    from False have i: "i < length pool"
      by (auto simp: i_def split: list.splits)
    then have pool: "pool = take i pool @ pool ! i # drop (Suc i) pool"
      by (rule id_take_nth_drop)
    from Suc.prems have "distinct (map f (take i pool @ pool ! i # drop (Suc i) pool))"
      using pool by simp
    then have d: "distinct (map f rest)" and out: "f (pool ! i) \<notin> f ` set rest"
      by (auto simp: rest_def)
    have sub: "set rest \<subseteq> set pool"
      by (auto simp: rest_def dest: in_set_takeD in_set_dropD)
    from Suc.IH[OF d, of "tl rs"] out sub i False show ?thesis
      by (auto simp: Let_def i_def rest_def)
  qed
qed

lemma random_sample_bound:
  assumes "random_sample rs population k = Inr chosen" and "distinct (map f population)"
  shows "int (length chosen) \<le> k \<and> distinct (map f chosen)"
proof -
  from assms(1) have k: "0 \<le> k" "nat k \<le> length population"
    and c: "chosen = sample_from rs population (nat k)"
    by (auto simp: random_sample_def split: if_splits)
  from sample_from_length[OF k(2)] sample_from_distinct[OF assms(2)] k(1) c
  show ?thesis by simp
qed

lemma rank_distinct:
  assumes "distinct (map mv_id movies)"
  shows "distinct (map mv_id (rank_by_genre_similarity movies gs))"
proof (cases "gs = []")
  case True
  with assms show ?thesis by (simp add: rank_by_genre_similarity_def)
next
  case False
  from rank_mset[OF this, of movies]
  have "mset (map mv_id (rank_by_genre_similarity movies gs))
        = mset (map mv_id (filter (\<lambda>m. 0 < intersection m gs) movies))"
    by (metis mset_map)
  moreover from assms have "distinct (map mv_id (filter (\<lambda>m. 0 < intersection m gs) movies))"
    by (rule distinct_map_filter)
  ultimately show ?thesis
    by (metis mset_eq_imp_distinct_iff)
qed

lemma py_take_bound:
  "0 \<le> k \<Longrightarrow> int (length (py_take k xs)) \<le> k"
  "distinct (map f xs) \<Longrightarrow> distinct (map f (py_take k xs))"
  by (auto simp: py_take_def take_map[symmetric] simp del: take_map)

lemma set_dict_of: "set (dict_of kvs) \<subseteq> set kvs"
proof -
  have "set (fold (\<lambda>(k, v) d. AList.update k v d) kvs d) \<subseteq> set d \<union> set kvs" for d
  proof (induction kvs arbitrary: d)
    case Nil
    then show ?case by simp
  next
    case (Cons kv kvs)
    obtain k v where kv: "kv = (k, v)" by (cases kv)
    have "set (AList.update k v d) \<subseteq> insert (k, v) (set d)"
      by (induction d) auto
    with Cons.IH[of "AList.update k v d"] show ?case
      by (auto simp: kv)
  qed
  from this[of "[]"] show ?thesis by (simp add: dict_of_def)
qed

lemma criteria_rows_bound:
  assumes "get_movies_by_ids db ids = Inr movie_data"
  shows "length movie_data \<le> length ids"
    and "distinct (map (\<lambda>(k, data). row_movie_id data) movie_data)"
proof -
  have keys: "map (\<lambda>(k, data). row_movie_id data) movie_data = map fst movie_data"
  proof (rule map_cong[OF refl])
    fix kd assume kd: "kd \<in> set movie_data"
    have "set movie_data
        \<subseteq> set (map (\<lambda>row. (row_movie_id row, row))
                    (filter (\<lambda>row. row_movie_id row \<in> set ids) (movies_table db)))"
    proof (cases "ids = []")
      case True
      with assms show ?thesis by (simp add: get_movies_by_ids_def)
    next
      case False
      with assms have "movie_data = dict_of (map (\<lambda>row. (row_movie_id row, row))
                    (filter (\<lambda>row. row_movie_id row \<in> set ids) (movies_table db)))"
        by (simp add: get_movies_by_ids_def split: if_splits)
      then show ?thesis by (simp only: set_dict_of)
    qed
    with kd show "(case kd of (k, data) \<Rightarrow> row_movie_id data) = fst kd"
      by auto
  qed
  from assms have d: "distinct (map fst movie_data)"
    using distinct_dict_of by (auto simp: get_movies_by_ids_def split: if_splits)
  then show "distinct (map (\<lambda>(k, data). row_movie_id data) movie_data)"
    by (simp add: keys)
  have "fst ` set movie_data \<subseteq> set ids"
  proof
    fix k assume "k \<in> fst ` set movie_data"
    then obtain data where "map_of movie_data k = Some data"
      using d by (metis (no_types) image_iff map_of_is_SomeI prod.collapse)
    from movie_data_Some[OF assms this] show "k \<in> set ids" by simp
  qed
  then have "card (fst ` set movie_data) \<le> card (set ids)"
    by (simp add: card_mono)
  also have "\<dots> \<le> length ids" by (rule card_length)
  finally show "length movie_data \<le> length ids"
    using d by (metis distinct_card length_map set_map)
qed

lemma within_bound_Nil: "0 \<le> top_k \<Longrightarrow> within_bound top_k []"
  by (simp add: within_bound_def)

lemma cold_start_from_bound:
  assumes idx: "\<forall>v k r. query_points (vector_repo svc) v k = Inr r
                   \<longrightarrow> int (length r) \<le> k \<and> distinct (map payload_movie_id r)"
    and k: "0 \<le> top_k"
    and run: "cold_start_from svc rt ids genres kws top_k = Inr movies"
  shows "within_bound top_k movies"
proof -
  have guard: "(if ids \<noteq> [] then get_vectors_by_ids (vector_repo svc) ids else Inr [])
               = get_vectors_by_ids (vector_repo svc) ids"
    by (simp add: get_vectors_by_ids_Nil)
  from run obtain vectors where vecs: "get_vectors_by_ids (vector_repo svc) ids = Inr vectors"
    unfolding cold_start_from_def guard by (auto split: sum.splits)
  show ?thesis
  proof (cases vectors)
    case (Cons v vs)
    with vecs have found: "get_vectors_by_ids (vector_repo svc) ids = Inr (v # vs)" by simp
    from run found obtain tv results enriched where
      "np_mean_axis0 v vs = Inr tv"
      and rs: "search_similar (vector_repo svc) tv (top_k * 2) = Inr results"
      and en: "enrich_movies svc (map movie_id (filter (\<lambda>r. movie_id r \<notin> set ids) results))
           (dict_of (map (\<lambda>r. (movie_id r, score r)) results)) = Inr enriched"
      and mv: "movies = py_take top_k
                  (case genres of
                     None \<Rightarrow> enriched
                   | Some gs \<Rightarrow> if gs = [] then enriched
                               else rank_by_genre_similarity enriched gs)"
      by (rule vector_branch_result)
    from search_similar_bound[OF idx rs] have "distinct (map movie_id results)" by simp
    then have "distinct (map movie_id (filter (\<lambda>r. movie_id r \<notin> set ids) results))"
      by (rule distinct_map_filter)
    from enrich_movies_bound(2)[OF en this] have d: "distinct (map mv_id enriched)" .
    then have "distinct (map mv_id (case genres of
                     None \<Rightarrow> enriched
                   | Some gs \<Rightarrow> if gs = [] then enriched
                               else rank_by_genre_similarity enriched gs))"
      using rank_distinct by (auto split: option.splits)
    with k show ?thesis
      unfolding mv within_bound_def by (simp add: py_take_bound)
  next
    case Nil
    with vecs have none: "get_vectors_by_ids (vector_repo svc) ids = Inr []" by simp
    show ?thesis
    proof (cases "movies = []")
      case True
      with k show ?thesis by (simp add: within_bound_Nil)
    next
      case False
      with run none obtain candidates_list movie_data where
        md: "get_movies_by_ids (movie_repo svc)
               (py_take top_k (list_of_set (set_rank rt) candidates_list)) = Inr movie_data"
        and mv: "movies = map (\<lambda>(k, data).
                                \<lparr>mv_id = row_movie_id data, mv_title = row_title data,
                                 mv_genres = row_genres data,
                                 mv_poster_url = row_poster_url data,
                                 mv_score = 0\<rparr>) movie_data"
        unfolding cold_start_from_def guard
        by (auto simp: Let_def split: sum.splits if_splits)
      have ids_eq: "map mv_id movies = map (\<lambda>(k, data). row_movie_id data) movie_data"
        by (auto simp: mv)
      from criteria_rows_bound(1)[OF md] py_take_bound(1)[OF k]
      have "int (length movie_data) \<le> top_k"
        by (meson of_nat_mono order_trans)
      with criteria_rows_bound(2)[OF md] show ?thesis
        unfolding within_bound_def ids_eq by (simp add: mv)
    qed
  qed
qed

lemma recommend_for_user_body_bound:
  assumes idx: "\<forall>v k r. query_points (vector_repo svc) v k = Inr r
                   \<longrightarrow> int (length r) \<le> k \<and> distinct (map payload_movie_id r)"
    and k: "0 \<le> top_k"
  shows "within_bound top_k (fst (recommend_for_user_body svc rt h user_id top_k ab_group logs))"
proof (cases "fst (try_recommend_for_user svc rt h user_id top_k ab_group logs)")
  case (Inl e)
  with k show ?thesis
    by (auto simp: recommend_for_user_body_def within_bound_Nil split: prod.splits)
next
  case (Inr movies)
  then have res: "fst (recommend_for_user_body svc rt h user_id top_k ab_group logs) = movies"
    by (auto simp: recommend_for_user_body_def split: prod.splits)
  show ?thesis
  proof (cases "get_user_vector svc user_id")
    case (Inl e)
    with Inr show ?thesis
      by (simp add: try_recommend_for_user_def Let_def)
  next
    case gv: (Inr vec)
    show ?thesis
    proof (cases vec)
      case None
      with gv Inr have "movies = []"
        by (simp add: try_recommend_for_user_def Let_def)
      with k res show ?thesis by (simp add: within_bound_Nil)
    next
      case (Some user_vector)
      define search_k where "search_k = (if ab_group = ''treatment'' then top_k * 2 else top_k)"
      from gv Some Inr obtain recommendations chosen where
        rs: "search_similar (vector_repo svc) user_vector search_k = Inr recommendations"
        and ch: "(if ab_group = ''treatment'' \<and> int (length recommendations) > top_k
                  then random_sample (random_draws rt) recommendations top_k
                  else Inr recommendations) = Inr chosen"
        and en: "enrich_movies svc (map movie_id chosen)
                   (dict_of (map (\<lambda>r. (movie_id r, score r)) chosen)) = Inr movies"
        by (auto simp: try_recommend_for_user_def Let_def search_k_def split: sum.splits)
      from search_similar_bound[OF idx rs]
      have len: "int (length recommendations) \<le> search_k"
        and dist: "distinct (map movie_id recommendations)" by simp_all
      have "int (length chosen) \<le> top_k \<and> distinct (map movie_id chosen)"
      proof (cases "ab_group = ''treatment'' \<and> int (length recommendations) > top_k")
        case True
        with ch have "random_sample (random_draws rt) recommendations top_k = Inr chosen"
          by simp
        from random_sample_bound[OF this dist] show ?thesis .
      next
        case False
        with ch have "chosen = recommendations" by simp
        with False len dist show ?thesis
          by (auto simp: search_k_def split: if_splits)
      qed
      with enrich_movies_bound[OF en] have "within_bound top_k movies"
        by (simp add: within_bound_def)
      with res show ?thesis by simp
    qed
  qed
qed

text \<open>
  C7, for a bound that is not negative. Let the vector index return, whenever it returns,
  at most as many points as asked for, with distinct movie IDs. Then for \<open>0 \<le> top_k\<close>
  the list \<open>recommend_for_user\<close> returns (known user under control or treatment, or its
  fallback) and every list \<open>recommend_cold_start\<close> returns (by vector, by criteria, or
  empty) has at most \<open>top_k\<close> movies and no movie ID twice.
\<close>

theorem C7_results_within_bound:
  assumes "\<forall>v k r. query_points (vector_repo svc) v k = Inr r
                   \<longrightarrow> int (length r) \<le> k \<and> distinct (map payload_movie_id r)"
    and "0 \<le> top_k"
  shows "within_bound top_k (fst (recommend_for_user_body svc rt h user_id top_k ab_group logs))
         \<and> (recommend_cold_start svc rt h selected_movie_ids genres kws query search_svc top_k
              = (h', Inr movies) \<longrightarrow> within_bound top_k movies)"
proof -
  have "within_bound top_k movies"
    if "recommend_cold_start svc rt h selected_movie_ids genres kws query search_svc top_k
        = (h', Inr movies)"
  proof -
    from that obtain ids where
      "cold_start_from svc rt ids (map_option (str_lists h') genres)
         (map_option (str_lists h') kws) top_k = Inr movies"
      by (auto simp: recommend_cold_start_def split: prod.splits)
    from cold_start_from_bound[OF assms this] show ?thesis .
  qed
  with recommend_for_user_body_bound[OF assms] show ?thesis by blast
qed

lemma demo_index_ok:
  "\<forall>v k r. query_points (vector_repo demo_service) v k = Inr r
             \<longrightarrow> int (length r) \<le> k \<and> distinct (map payload_movie_id r)"
proof (intro allI impI)
  fix v :: "rat list" and k :: int and r
  assume "query_points (vector_repo demo_service) v k = Inr r"
  then have k: "0 \<le> k" and r: "r = take (nat k) demo_points"
    by (auto simp: demo_service_def demo_index_def split: if_splits)
  have "distinct (map payload_movie_id demo_points)"
    by (simp add: demo_points_def)
  then have "distinct (take (nat k) (map payload_movie_id demo_points))"
    by (rule distinct_take)
  with k show "int (length r) \<le> k \<and> distinct (map payload_movie_id r)"
    by (simp add: r take_map)
qed

lemma demo_runs:
  "recommend_for_user_body demo_service demo_runtime demo_heap 7 2 ''control'' []
   = ([demo_movie 10 ''Ten'' ''Action|Drama'' (9/10), demo_movie 11 ''Eleven'' ''Comedy'' (8/10)],
      [])"
  "fst (recommend_for_user_body demo_service demo_runtime demo_heap 7 2 ''treatment'' [])
   = [demo_movie 12 ''Twelve'' ''Action|Sci-Fi'' (7/10), demo_movie 10 ''Ten'' ''Action|Drama'' (9/10)]"
  "fst (recommend_for_user_body demo_service demo_runtime demo_heap 8 2 ''control'' []) = []"
  "snd (recommend_cold_start demo_service demo_runtime demo_heap (Some 0) None None None None 2)
   = Inr [demo_movie 10 ''Ten'' ''Action|Drama'' (9/10), demo_movie 11 ''Eleven'' ''Comedy'' (8/10)]"
  "snd (recommend_cold_start demo_service demo_runtime demo_heap None (Some 0) None None None 2)
   = Inr [demo_movie 1 ''One'' ''Action'' 0, demo_movie 10 ''Ten'' ''Action|Drama'' 0]"
  by code_simp+

text \<open>
  The demo service with \<open>top_k = 2\<close>: user 7 under control and under treatment (the
  sample draws movies 12 and 10 of the four found), the unknown user 8, a cold start from
  seed 1, and one from the genres \<open>Action, Sci-Fi\<close> alone.
\<close>

theorem C7_results_within_bound_witness:
  "(0::int) \<le> 2
   \<and> within_bound 2 [demo_movie 10 ''Ten'' ''Action|Drama'' (9/10),
                      demo_movie 11 ''Eleven'' ''Comedy'' (8/10)]
   \<and> within_bound 2 [demo_movie 12 ''Twelve'' ''Action|Sci-Fi'' (7/10),
                      demo_movie 10 ''Ten'' ''Action|Drama'' (9/10)]
   \<and> within_bound 2 (fst (recommend_for_user_body demo_service demo_runtime demo_heap 8 2
                             ''control'' []))
   \<and> within_bound 2 [demo_movie 1 ''One'' ''Action'' 0, demo_movie 10 ''Ten'' ''Action|Drama'' 0]"
proof -
  have k: "(0::int) \<le> 2" by simp
  note T = C7_results_within_bound[OF demo_index_ok k, where rt=demo_runtime and h=demo_heap
      and logs="[]" and query=None and search_svc=None and kws=None]
  from T[where user_id=7 and ab_group="''control''" and selected_movie_ids="Some 0"
           and genres=None
           and h'="fst (recommend_cold_start demo_service demo_runtime demo_heap (Some 0) None
                          None None None 2)"
           and movies="[demo_movie 10 ''Ten'' ''Action|Drama'' (9/10),
                        demo_movie 11 ''Eleven'' ''Comedy'' (8/10)]"]
  have a: "within_bound 2 [demo_movie 10 ''Ten'' ''Action|Drama'' (9/10),
                           demo_movie 11 ''Eleven'' ''Comedy'' (8/10)]"
    by (simp add: demo_runs prod_eq_iff)
  from T[where user_id=7 and ab_group="''treatment''" and selected_movie_ids=None
           and genres="Some 0"
           and h'="fst (recommend_cold_start demo_service demo_runtime demo_heap None (Some 0)
                          None None None 2)"
           and movies="[demo_movie 1 ''One'' ''Action'' 0, demo_movie 10 ''Ten'' ''Action|Drama'' 0]"]
  have b: "within_bound 2 [demo_movie 12 ''Twelve'' ''Action|Sci-Fi'' (7/10),
                           demo_movie 10 ''Ten'' ''Action|Drama'' (9/10)]"
    and c: "within_bound 2 [demo_movie 1 ''One'' ''Action'' 0,
                            demo_movie 10 ''Ten'' ''Action|Drama'' 0]"
    by (simp_all add: demo_runs prod_eq_iff)
  from T[where user_id=8 and ab_group="''control''"]
  have d: "within_bound 2 (fst (recommend_for_user_body demo_service demo_runtime demo_heap 8 2
                                  ''control'' []))"
    by simp
  from k a b c d show ?thesis by simp
qed

lemma demo_negative_run:
  "recommend_for_user_body demo_service demo_runtime demo_heap 7 (- 1) ''control'' []
   = ([], [Error ''Error generating recommendations for user 7''
             (Exception ''UnexpectedResponse: limit'')])"
  by code_simp

text \<open>
  C7 as claimed fails for a negative bound: with \<open>top_k = -1\<close> the known user 7 gets
  the empty list (the index refuses the limit, the handler returns \<open>[]\<close>), and a cold
  start without any signal returns the empty list; its length 0 is not at most -1.
\<close>

theorem C7_negative_bound_counterexample:
  "recommend_for_user_body demo_service demo_runtime demo_heap 7 (- 1) ''control'' []
     = ([], [Error ''Error generating recommendations for user 7''
               (Exception ''UnexpectedResponse: limit'')])
   \<and> recommend_cold_start demo_service demo_runtime demo_heap None None None None None (- 1)
     = (demo_heap, Inr [])
   \<and> \<not> within_bound (- 1) []"
  by (simp add: demo_negative_run within_bound_def)

subsection \<open>Experiment assignment\<close>

lemma sha256_round_length: "length (sha256_round kw st) = length st"
  by (cases "(kw, st)" rule: sha256_round.cases) (simp_all add: Let_def)

lemma fold_sha256_round_length: "length (fold sha256_round kws st) = length st"
  by (induction kws arbitrary: st) (simp_all add: sha256_round_length)

lemma sha256_compress_length: "length (sha256_compress st block) = length st"
  by (simp add: sha256_compress_def fold_sha256_round_length)

lemma sha256_blocks_length: "length (sha256_blocks n ws st) = length st"
  by (induction n arbitrary: ws st) (simp_all add: sha256_compress_length)

lemma sha256_length: "length (sha256 s) = 8"
  by (simp add: sha256_def Let_def sha256_blocks_length sha256_h0_def)

lemma nibble_less: "unat (and x (15 :: u32)) < 16"
proof -
  have "unat (and x 15) \<le> unat (15 :: u32)"
    by (rule word_and_le1 [THEN word_le_nat_alt [THEN iffD1]])
  then show ?thesis by simp
qed

lemma nibble_even: "even (unat (and x (15 :: u32))) \<longleftrightarrow> \<not> bit x 0"
proof -
  have "even (unat (and x 15)) \<longleftrightarrow> \<not> bit (unat (and x 15)) 0"
    by (simp add: bit_0)
  also have "\<dots> \<longleftrightarrow> \<not> bit (and x 15) 0"
    by (simp add: bit_unsigned_iff)
  also have "\<dots> \<longleftrightarrow> \<not> bit x 0"
    by (simp add: bit_0 even_and_iff)
  finally show ?thesis .
qed

lemma nibble_even_uint: "even (uint (and x (15 :: u32))) \<longleftrightarrow> \<not> bit x 0"
proof -
  have "even (uint (and x 15)) \<longleftrightarrow> \<not> bit (uint (and x 15)) 0"
    by (simp add: bit_0)
  also have "\<dots> \<longleftrightarrow> \<not> bit (and x 15) 0"
    by (simp add: bit_uint_iff)
  also have "\<dots> \<longleftrightarrow> \<not> bit x 0"
    by (simp add: bit_0 even_and_iff)
  finally show ?thesis .
qed

lemma hex_values:
  "map hex_value ''0123456789abcdef''
   = map Some [0, 1, 2, 3, 4, 5, 6, 7, 8, 9, 10, 11, 12, 13, 14, 15]"
  by code_simp

lemma first_sixteen:
  assumes "n < 16"
  shows "[0, 1, 2, 3, 4, 5, 6, 7, 8, 9, 10, 11, 12, 13, 14, 15 :: int] ! n = int n"
proof -
  have "[0, 1, 2, 3, 4, 5, 6, 7, 8, 9, 10, 11, 12, 13, 14, 15] = map int [0..<16]"
    by (simp add: upt_rec)
  with assms show ?thesis by simp
qed

lemma hex_value_hex_digit: "hex_value (hex_digit x) = Some (int (unat (and x 15)))"
proof -
  let ?n = "unat (and x 15)"
  have n: "?n < length ''0123456789abcdef''"
    using nibble_less[of x] by simp
  have "hex_value (''0123456789abcdef'' ! ?n) = map hex_value ''0123456789abcdef'' ! ?n"
    using n by (simp only: nth_map)
  also have "\<dots> = Some ([0, 1, 2, 3, 4, 5, 6, 7, 8, 9, 10, 11, 12, 13, 14, 15] ! ?n)"
    unfolding hex_values by (rule nth_map) (use nibble_less[of x] in simp)
  finally show ?thesis
    by (simp add: hex_digit_def first_sixteen[OF nibble_less])
qed

lemma parse_hex_digits:
  "parse_hex acc (map hex_digit xs)
   = Inr (foldl (\<lambda>a x. 16 * a + int (unat (and x 15))) acc xs)"
  by (induction xs arbitrary: acc) (simp_all add: hex_value_hex_digit)

lemma parse_hex_parity:
  assumes "xs \<noteq> []"
  shows "even (foldl (\<lambda>a x. 16 * a + int (unat (and x (15 :: u32)))) acc xs)
         \<longleftrightarrow> \<not> bit (last xs) 0"
proof (cases xs rule: rev_cases)
  case Nil
  with assms show ?thesis by simp
next
  case (snoc ys y)
  then show ?thesis by (simp add: nibble_even nibble_even_uint)
qed

lemma hexdigest_nibbles: "hexdigest ws = map hex_digit (nibbles ws)"
  by (induction ws) (simp_all add: hexdigest_def nibbles_def hex32_def)

lemma last_nibbles: "ws \<noteq> [] \<Longrightarrow> nibbles ws \<noteq> [] \<and> last (nibbles ws) = last ws"
  by (induction ws) (auto simp: nibbles_def)

lemma int_base16_hexdigest:
  assumes "ws \<noteq> []"
  shows "\<exists>hash_val. int_base16 (hexdigest ws) = Inr hash_val
                      \<and> (even hash_val \<longleftrightarrow> \<not> bit (last ws) 0)"
proof -
  from last_nibbles[OF assms] have ne: "nibbles ws \<noteq> []"
    and l: "last (nibbles ws) = last ws" by simp_all
  from ne have "int_base16 (hexdigest ws)
        = Inr (foldl (\<lambda>a x. 16 * a + int (unat (and x 15))) 0 (nibbles ws))"
    by (simp add: int_base16_def hexdigest_nibbles parse_hex_digits)
  with parse_hex_parity[OF ne, of 0] l show ?thesis by simp
qed

lemma group_by_last_bit:
  "get_user_experiment_group user_id
   = Inr (if bit (last (sha256 (py_str user_id))) 0 then ''treatment'' else ''control'')"
proof -
  have "sha256 (py_str user_id) \<noteq> []"
    using sha256_length[of "py_str user_id"] by auto
  from int_base16_hexdigest[OF this] obtain hash_val where
    "int_base16 (hexdigest (sha256 (py_str user_id))) = Inr hash_val"
    "even hash_val \<longleftrightarrow> \<not> bit (last (sha256 (py_str user_id))) 0"
    by blast
  then show ?thesis
    by (simp add: get_user_experiment_group_def ENABLE_AB_TESTING_def Let_def even_iff_mod_2_eq_zero)
qed

lemma sha256_of_1:
  "sha256 ''1'' = [1803989619, 4281662689, 2641068110, 4284104535,
                   1202562282, 2720996681, 3223212765, 3079101259]"
  by code_simp

lemma sha256_of_3:
  "sha256 ''3'' = [1309098117, 1656675211, 1624114625, 3738166189,
                   381100592, 2524831775, 1678474823, 699703246]"
  by code_simp

lemma hexdigest_of_1:
  "hexdigest [1803989619, 4281662689, 2641068110, 4284104535,
              1202562282, 2720996681, 3223212765, 3079101259]
   = ''6b86b273ff34fce19d6b804eff5a3f5747ada4eaa22f1d49c01e52ddb7875b4b''"
  by code_simp

lemma last_bits:
  "bit (3079101259 :: u32) 0" "\<not> bit (699703246 :: u32) 0"
  by (simp_all add: bit_0)

lemma str_of_1_and_3: "str_int 1 = ''1''" "str_int 3 = ''3''"
  by code_simp+

text \<open>
  C8. \<open>get_user_experiment_group\<close> is a function of the identifier alone: its value is
  \<open>"treatment"\<close> when the SHA-256 digest of \<open>str(user_id)\<close> is odd (its last bit is set)
  and \<open>"control"\<close> when it is even, it never raises, and an integer and the string of its
  decimal digits get the same group. The digest is that of the standard: the hexdigest of
  \<open>"1"\<close> is the published one, user 1 is in the treatment group and user 3 in the
  control group.
\<close>

theorem C8_group_is_sha256_parity:
  "get_user_experiment_group user_id
     = Inr (if bit (last (sha256 (py_str user_id))) 0 then ''treatment'' else ''control'')
   \<and> (\<exists>hash_val. int_base16 (hexdigest (sha256 (py_str user_id))) = Inr hash_val
          \<and> get_user_experiment_group user_id
              = Inr (if hash_val mod 2 = 0 then ''control'' else ''treatment''))
   \<and> get_user_experiment_group (PInt i) = get_user_experiment_group (PStr (str_int i))
   \<and> hexdigest (sha256 ''1'')
       = ''6b86b273ff34fce19d6b804eff5a3f5747ada4eaa22f1d49c01e52ddb7875b4b''
   \<and> get_user_experiment_group (PInt 1) = Inr ''treatment''
   \<and> get_user_experiment_group (PInt 3) = Inr ''control''"
proof -
  have ne: "sha256 (py_str user_id) \<noteq> []"
    using sha256_length[of "py_str user_id"] by auto
  from int_base16_hexdigest[OF ne] obtain hash_val where
    hv: "int_base16 (hexdigest (sha256 (py_str user_id))) = Inr hash_val" by blast
  then have mod2: "get_user_experiment_group user_id
              = Inr (if hash_val mod 2 = 0 then ''control'' else ''treatment'')"
    by (simp add: get_user_experiment_group_def ENABLE_AB_TESTING_def Let_def)
  have same: "get_user_experiment_group (PInt i) = get_user_experiment_group (PStr (str_int i))"
    by (simp add: get_user_experiment_group_def)
  have one: "get_user_experiment_group (PInt 1) = Inr ''treatment''"
    unfolding group_by_last_bit by (simp add: str_of_1_and_3 sha256_of_1 last_bits)
  have three: "get_user_experiment_group (PInt 3) = Inr ''control''"
    unfolding group_by_last_bit by (simp add: str_of_1_and_3 sha256_of_3 last_bits)
  from group_by_last_bit[of user_id] hv mod2 same one three show ?thesis
    by (simp add: sha256_of_1 hexdigest_of_1)
qed

subsection \<open>The key of the cached method\<close>

lemma cached_for_everyone:
  "snd (recommend_for_user (\<lambda>movies. Inr ''[]'') (\<lambda>bytes. Inr []) (Some shared_cache)
          demo_service demo_runtime demo_heap demo_self 7 2 ''control'' [])
   = ([], Inr [])"
  by code_simp

text \<open>
  C1. The claim: the cache key of \<open>recommend_for_user(user_id, ...)\<close> is
  \<open>"rec:<user_id>"\<close>, so distinct users never share a key. On the code, the first
  positional argument of the decorated method is the service instance: the key is
  \<open>"rec:" + str(self)\<close> whatever the user, so users 1 and 2 of one service share their
  key, and it is not \<open>"rec:1"\<close>, the key a plain function called with the ID gets (the
  case of \<open>tests/test_cache.py\<close>). With an entry under the key of the service, user 7,
  for whom the function computes movies 10 and 11, is served the cached list.
\<close>

theorem C1_method_key_is_per_service:
  "recommend_for_user_cache_key self user_id = ''rec:'' @ py_str self
   \<and> recommend_for_user_cache_key self 1 = recommend_for_user_cache_key self 2
   \<and> recommend_for_user_cache_key demo_self 1
       = ''rec:<services.recommendation_service.RecommendationService object at 0x7f2a>''
   \<and> recommend_for_user_cache_key demo_self 1 \<noteq> ''rec:1''
   \<and> cache_key ''rec'' [PInt 1] = ''rec:1''
   \<and> map mv_id (fst (recommend_for_user_body demo_service demo_runtime demo_heap 7 2
                         ''control'' [])) = [10, 11]
   \<and> snd (recommend_for_user (\<lambda>movies. Inr ''[]'') (\<lambda>bytes. Inr []) (Some shared_cache)
            demo_service demo_runtime demo_heap demo_self 7 2 ''control'' [])
       = ([], Inr [])"
proof -
  have key: "recommend_for_user_cache_key self user_id = ''rec:'' @ py_str self" for self user_id
    by (simp add: recommend_for_user_cache_key_def cache_key_def bound_method_args_def)
  have plain: "cache_key ''rec'' [PInt 1] = ''rec:1''"
    by code_simp
  from key plain cached_for_everyone show ?thesis
    by (simp add: demo_self_def demo_runs(1) demo_movie_def)
qed

subsection \<open>Seeds without a vector\<close>

lemma seed_10_run:
  "neural_search seed_10_heap (Some 0) None None = (seed_10_heap, [10])"
  "get_vectors_by_ids (vector_repo quiet_service) [10] = Inr []"
  by (simp_all add: neural_search_def seed_10_heap_def get_vectors_by_ids_def quiet_service_def
        empty_index_def map_filter_simps)

lemma seed_10_result:
  "snd (recommend_cold_start quiet_service demo_runtime seed_10_heap (Some 0) (Some 0) None None
          None 10)
   = Inr [demo_movie 1 ''One'' ''Action'' 0, demo_movie 10 ''Ten'' ''Action|Drama'' 0,
          demo_movie 12 ''Twelve'' ''Action|Sci-Fi'' 0]"
  by code_simp

text \<open>
  C4. The claim: a cold start with seeds never returns a seed. On the code this holds in
  the vector branch only (lemma \<open>vector_branch_excludes_seeds\<close>). The caller selects
  movie 10 and the genre \<open>Action\<close>, and the index has no vector for movie 10: the seeds
  are \<open>[10]\<close>, no vector is found, the function goes on to the fallback by criteria, which
  filters nothing, and movie 10 is in the result.
\<close>

theorem C4_seed_without_vector_is_returned:
  "snd (neural_search seed_10_heap (Some 0) None None) = [10]
   \<and> get_vectors_by_ids (vector_repo quiet_service) [10] = Inr []
   \<and> snd (recommend_cold_start quiet_service demo_runtime seed_10_heap (Some 0) (Some 0) None
            None None 10)
       = Inr [demo_movie 1 ''One'' ''Action'' 0, demo_movie 10 ''Ten'' ''Action|Drama'' 0,
              demo_movie 12 ''Twelve'' ''Action|Sci-Fi'' 0]
   \<and> 10 \<in> set (map mv_id [demo_movie 1 ''One'' ''Action'' 0,
                              demo_movie 10 ''Ten'' ''Action|Drama'' 0,
                              demo_movie 12 ''Twelve'' ''Action|Sci-Fi'' 0])"
  by (simp add: seed_10_run seed_10_result demo_movie_def)

subsection \<open>A result that does not serialise\<close>

lemma unserialisable_result_raises:
  assumes "redis_get c (cache_key p args) = Inr None
           \<or> (\<exists>e'. redis_get c (cache_key p args) = Inl e' \<and> redis_caught e')"
    and "func args kw s = (Inr r, s')"
    and "dumps r = Inl e"
  shows "cache_result p ttl dumps loads func (Some c) args kw s = (Some c, s', Inl e)"
  using assms
  by (auto simp: cache_result_def compute_fresh_def Let_def split: option.splits sum.splits)

lemma movies_for_user_7:
  "fst (recommend_for_user_body demo_service demo_runtime demo_heap 7 2 ''control'' [])
   = [demo_movie 10 ''Ten'' ''Action|Drama'' (9/10), demo_movie 11 ''Eleven'' ''Comedy'' (8/10)]"
  by code_simp

lemma dumps_of_movies:
  "dumps_movies [demo_movie 10 ''Ten'' ''Action|Drama'' (9/10),
                 demo_movie 11 ''Eleven'' ''Comedy'' (8/10)]
   = Inl (Exception ''TypeError: Object of type Movie is not JSON serializable'')"
  by (simp add: dumps_movies_def)

lemma miss_raises:
  "snd (snd (recommend_for_user dumps_movies (\<lambda>bytes. Inr []) (Some empty_cache)
               demo_service demo_runtime demo_heap demo_self 7 2 ''control'' []))
   = Inl (Exception ''TypeError: Object of type Movie is not JSON serializable'')"
  by code_simp

lemma read_error_raises:
  "snd (snd (recommend_for_user dumps_movies (\<lambda>bytes. Inr []) (Some unreadable_cache)
               demo_service demo_runtime demo_heap demo_self 7 2 ''control'' []))
   = Inl (Exception ''TypeError: Object of type Movie is not JSON serializable'')"
  by code_simp

text \<open>
  C5. The claim: on a miss the wrapper runs the computation, stores the result and
  returns it, and on a connectivity error of the cache it returns the fresh result. On the
  code this holds for a result that \<open>json.dumps\<close> serialises (lemma
  \<open>cache_aside_when_serialisable\<close>). \<open>json.dumps(result)\<close> is evaluated under a
  handler for ConnectionError and TimeoutError alone, and the one function the repository
  decorates returns a list of \<open>Movie\<close> objects: for user 7, whose recommendations are
  movies 10 and 11, the wrapper raises TypeError after a miss, and also after a read that
  failed with ConnectionError, instead of returning the two movies.
\<close>

theorem C5_unserialisable_result_raises:
  "fst (recommend_for_user_body demo_service demo_runtime demo_heap 7 2 ''control'' [])
     = [demo_movie 10 ''Ten'' ''Action|Drama'' (9/10), demo_movie 11 ''Eleven'' ''Comedy'' (8/10)]
   \<and> dumps_movies [demo_movie 10 ''Ten'' ''Action|Drama'' (9/10),
                    demo_movie 11 ''Eleven'' ''Comedy'' (8/10)]
       = Inl (Exception ''TypeError: Object of type Movie is not JSON serializable'')
   \<and> redis_get empty_cache (recommend_for_user_cache_key demo_self 7) = Inr None
   \<and> snd (snd (recommend_for_user dumps_movies (\<lambda>bytes. Inr []) (Some empty_cache)
                  demo_service demo_runtime demo_heap demo_self 7 2 ''control'' []))
       = Inl (Exception ''TypeError: Object of type Movie is not JSON serializable'')
   \<and> redis_get unreadable_cache (recommend_for_user_cache_key demo_self 7) = Inl ConnectionError
   \<and> snd (snd (recommend_for_user dumps_movies (\<lambda>bytes. Inr []) (Some unreadable_cache)
                  demo_service demo_runtime demo_heap demo_self 7 2 ''control'' []))
       = Inl (Exception ''TypeError: Object of type Movie is not JSON serializable'')"
proof -
  have miss: "redis_get empty_cache (recommend_for_user_cache_key demo_self 7) = Inr None"
    by (simp add: redis_get_def empty_cache_def)
  have read_error:
    "redis_get unreadable_cache (recommend_for_user_cache_key demo_self 7) = Inl ConnectionError"
    by (simp add: redis_get_def unreadable_cache_def)
  show ?thesis
    by (intro conjI movies_for_user_7 dumps_of_movies miss miss_raises read_error
          read_error_raises)
qed

end
